theory Spec2Isabelle
  imports Main
begin

section \<open>Python values and errors\<close>

text \<open>
  The values that reach \<^verbatim>\<open>jit_cache.py\<close> as keyword arguments. The code applies only
  \<^verbatim>\<open>type()\<close>, \<^verbatim>\<open>str()\<close>, \<^verbatim>\<open>len()\<close>, indexing and \<^verbatim>\<open>callable()\<close> to them, so an
  \<^verbatim>\<open>int\<close> and a \<^verbatim>\<open>bool\<close> are modelled exactly, and every other object carries the text
  that \<^verbatim>\<open>str()\<close> returns for it: a \<^verbatim>\<open>float\<close> is given by its \<^verbatim>\<open>str()\<close> (such as
  \<^verbatim>\<open>1.0\<close>), a tuple or list by its \<^verbatim>\<open>str()\<close> and its items, any other object that is
  neither a sequence nor callable by its \<^verbatim>\<open>str()\<close> alone.
\<close>

datatype pyval =
    PyInt int
  | PyBool bool
  | PyFloat string
  | PyStr string
  | PyNone
  | PySeq string "pyval list"
  | PyOther string

text \<open>
  A keyword argument is a value or a callable (the launch grid may be a function of the
  keyword arguments). A callable is given by its \<^verbatim>\<open>str()\<close> and by the function it
  computes on the values among the keyword arguments.
\<close>

datatype pyarg =
    Val pyval
  | Callable string "(string \<Rightarrow> pyval option) \<Rightarrow> pyval"

type_synonym kwargs = "string \<Rightarrow> pyarg option"

datatype pyerror =
    RuntimeError string
  | AssertionError
  | KeyError string
  | IndexError
  | TypeError
  | AttributeError string
  | OutOfResources int int string
  | CompilationError string

subsection \<open>\<^verbatim>\<open>str()\<close>, \<^verbatim>\<open>type()\<close>, \<^verbatim>\<open>len()\<close> and indexing\<close>

definition digit_char :: "nat \<Rightarrow> char" where
  "digit_char d = char_of (48 + d)"

function str_nat :: "nat \<Rightarrow> string" where
  "str_nat n = (if n < 10 then [digit_char n] else str_nat (n div 10) @ [digit_char (n mod 10)])"
  by pat_completeness auto
termination
  by (relation "measure (\<lambda>n. n)") auto

declare str_nat.simps [simp del]

definition str_int :: "int \<Rightarrow> string" where
  "str_int i = (if i < 0 then CHR ''-'' # str_nat (nat (- i)) else str_nat (nat i))"

fun py_str_val :: "pyval \<Rightarrow> string" where
  "py_str_val (PyInt i) = str_int i"
| "py_str_val (PyBool b) = (if b then ''True'' else ''False'')"
| "py_str_val (PyFloat s) = s"
| "py_str_val (PyStr s) = s"
| "py_str_val PyNone = ''None''"
| "py_str_val (PySeq s xs) = s"
| "py_str_val (PyOther s) = s"

fun py_str :: "pyarg \<Rightarrow> string" where
  "py_str (Val v) = py_str_val v"
| "py_str (Callable s f) = s"

text \<open>\<^verbatim>\<open>type(v) in [int, bool, float]\<close>\<close>

fun type_in_int_bool_float :: "pyarg \<Rightarrow> bool" where
  "type_in_int_bool_float (Val (PyInt i)) = True"
| "type_in_int_bool_float (Val (PyBool b)) = True"
| "type_in_int_bool_float (Val (PyFloat s)) = True"
| "type_in_int_bool_float a = False"

fun callable :: "pyarg \<Rightarrow> bool" where
  "callable (Callable s f) = True"
| "callable (Val v) = False"

fun py_len :: "pyval \<Rightarrow> pyerror + nat" where
  "py_len (PySeq s xs) = Inr (length xs)"
| "py_len (PyStr s) = Inr (length s)"
| "py_len v = Inl TypeError"

fun py_getitem :: "pyval \<Rightarrow> nat \<Rightarrow> pyerror + pyval" where
  "py_getitem (PySeq s xs) i = (if i < length xs then Inr (xs ! i) else Inl IndexError)"
| "py_getitem (PyStr s) i = (if i < length s then Inr (PyStr [s ! i]) else Inl IndexError)"
| "py_getitem v i = Inl TypeError"

text \<open>The values among the keyword arguments, as a callable grid reads them.\<close>

definition vals_of :: "kwargs \<Rightarrow> string \<Rightarrow> pyval option" where
  "vals_of kw k = (case kw k of Some (Val v) \<Rightarrow> Some v | Some (Callable s f) \<Rightarrow> None | None \<Rightarrow> None)"

subsection \<open>Dictionaries that keep insertion order\<close>

text \<open>
  \<^verbatim>\<open>kernel_cache\<close> is a Python \<^verbatim>\<open>dict\<close>: assigning to a key that is present replaces its
  value in place, assigning to a new key appends it; \<^verbatim>\<open>list(d.keys())\<close> is the keys in
  that order; reading a missing key raises \<^verbatim>\<open>KeyError\<close>.
\<close>

fun dict_set :: "string \<Rightarrow> 'v \<Rightarrow> (string \<times> 'v) list \<Rightarrow> (string \<times> 'v) list" where
  "dict_set k v [] = [(k, v)]"
| "dict_set k v ((k', v') # d) = (if k' = k then (k, v) # d else (k', v') # dict_set k v d)"

definition dict_get :: "(string \<times> 'v) list \<Rightarrow> string \<Rightarrow> pyerror + 'v" where
  "dict_get d k = (case map_of d k of None \<Rightarrow> Inl (KeyError k) | Some v \<Rightarrow> Inr v)"

definition dict_keys :: "(string \<times> 'v) list \<Rightarrow> string list" where
  "dict_keys d = map fst d"

definition kw_get :: "kwargs \<Rightarrow> string \<Rightarrow> pyerror + pyarg" where
  "kw_get kw k = (case kw k of None \<Rightarrow> Inl (KeyError k) | Some v \<Rightarrow> Inr v)"

section \<open>The lock\<close>

text \<open>
  \<^verbatim>\<open>class CacheLock\<close> (lines 57 to 69); its field \<^verbatim>\<open>id\<close> is \<open>lock_id\<close> here. The
  debug lines that \<^verbatim>\<open>lock\<close> and \<^verbatim>\<open>unlock\<close> log are left out. Locks are shared by
  reference, so they live in a store
  and a cache holds the address of its lock.
\<close>

record CacheLock =
  is_locked :: bool
  lock_id :: string

definition CacheLock_init :: "string \<Rightarrow> CacheLock" where
  "CacheLock_init i = \<lparr>is_locked = False, lock_id = i\<rparr>"

definition lock :: "CacheLock \<Rightarrow> CacheLock" where
  "lock l = l\<lparr>is_locked := True\<rparr>"

definition unlock :: "CacheLock \<Rightarrow> CacheLock" where
  "unlock l = l\<lparr>is_locked := False\<rparr>"

datatype lock_call = CallLock | CallUnlock

fun lock_calls :: "lock_call list \<Rightarrow> CacheLock \<Rightarrow> CacheLock" where
  "lock_calls [] l = l"
| "lock_calls (CallLock # cs) l = lock_calls cs (lock l)"
| "lock_calls (CallUnlock # cs) l = lock_calls cs (unlock l)"

type_synonym lock_store = "nat \<Rightarrow> CacheLock"

section \<open>The collaborators: compiler and driver\<close>

text \<open>
  What \<^verbatim>\<open>self.fn.run(..., warmup=True)\<close> returns: the compiled kernel, with the fields the
  cache reads.
\<close>

record compiled_kernel =
  k_src :: string
  k_name :: string
  k_kernel :: string
  k_metadata_shared :: int
  k_packed_metadata :: string
  k_launch_metadata :: "pyval \<Rightarrow> nat \<Rightarrow> pyarg list \<Rightarrow> string"

record param =
  name :: string
  is_constexpr :: bool
  is_const :: bool

text \<open>
  The jitted function \<^verbatim>\<open>self.fn\<close>: its parameters, its compiler (which may raise), its
  argument binding (of which the cache uses the non-constant values only) and the two hooks of
  \<^verbatim>\<open>self.fn.CompiledKernel\<close>.
\<close>

record jit_function =
  params :: "param list"
  fn_run :: "pyarg list \<Rightarrow> kwargs \<Rightarrow> pyerror + compiled_kernel"
  fn_bind :: "pyarg list \<Rightarrow> kwargs \<Rightarrow> pyarg list"
  fn_launch_enter_hook :: string
  fn_launch_exit_hook :: string

text \<open>\<^verbatim>\<open>driver.active\<close>: the current device and stream, the device properties, the loader.\<close>

record driver =
  get_current_device :: nat
  get_current_stream :: "nat \<Rightarrow> nat"
  max_shared_mem :: "nat \<Rightarrow> int"
  load_binary :: "string \<Rightarrow> string \<Rightarrow> int \<Rightarrow> nat \<Rightarrow> string \<times> string \<times> nat \<times> nat"

text \<open>
  What the code does to the world besides returning: it asks for a compilation, loads a
  binary, logs and prints. A call returns the events it caused, in order.
\<close>

datatype event =
    Compile "pyarg list" kwargs
  | LoadBinary string nat
  | DebugCompilationTook
  | DebugAlreadyCached
  | DebugNotInCacheCompiling string "string list"
  | PrintNotInCache string "string list"
  | PrintException pyerror

fun is_compile :: "event \<Rightarrow> bool" where
  "is_compile (Compile args kw) = True"
| "is_compile e = False"

definition count_compiles :: "event list \<Rightarrow> nat" where
  "count_compiles evs = length (filter is_compile evs)"

text \<open>
  The launch: the arguments of \<^verbatim>\<open>self.run(grid_0, grid_1, grid_2, stream, function, ...)\<close>
  (lines 158 to 169) together with the launcher that \<^verbatim>\<open>launcher_cls\<close> built. The call
  returns what the launcher returns, which the model identifies with these arguments.
\<close>

record launch =
  l_launcher :: "string \<times> int"
  l_grid :: "pyval \<times> pyval \<times> pyval"
  l_stream :: nat
  l_function :: string
  l_packed_metadata :: string
  l_launch_metadata :: string
  l_launch_enter_hook :: string
  l_launch_exit_hook :: string
  l_non_constsexpr_vals :: "pyarg list"

section \<open>PreparedKernel\<close>

record PreparedKernel =
  grid_obj :: pyarg
  grid_is_callable :: bool
  grid_size :: nat
  cache_launch_grid :: bool
  concrete_grid :: "(pyval \<times> pyval \<times> pyval) option"
  pk_kernel :: compiled_kernel
  launch_metadata :: string
  launch_enter_hook :: string
  launch_exit_hook :: string
  non_const_arg_names :: "string list"
  device :: nat
  stream :: nat
  pk_run :: "string \<times> int"
  dev_max_shared :: int
  pk_module :: string
  pk_function :: string
  n_regs :: nat
  n_spills :: nat
  cache_key :: string

text \<open>
  The three grid dimensions of lines 98 to 100 and 154 to 156: the first item is always
  read, the second and third only when the grid is long enough, else they are 1.
\<close>

definition grid_dims :: "pyval \<Rightarrow> nat \<Rightarrow> pyerror + pyval \<times> pyval \<times> pyval" where
  "grid_dims grid gsize =
     (case py_getitem grid 0 of Inl e \<Rightarrow> Inl e | Inr grid_0 \<Rightarrow>
      (case (if gsize > 1 then py_getitem grid 1 else Inr (PyInt 1)) of Inl e \<Rightarrow> Inl e | Inr grid_1 \<Rightarrow>
       (case (if gsize > 2 then py_getitem grid 2 else Inr (PyInt 1)) of Inl e \<Rightarrow> Inl e | Inr grid_2 \<Rightarrow>
          Inr (grid_0, grid_1, grid_2))))"

text \<open>
  \<^verbatim>\<open>_init_handles\<close> (lines 114 to 136). When the kernel needs more shared memory than the
  device has, line 126 evaluates \<^verbatim>\<open>self.metadata.shared\<close> to build the exception; a
  \<^verbatim>\<open>PreparedKernel\<close> has no attribute \<^verbatim>\<open>metadata\<close> (the constructor sets
  \<^verbatim>\<open>self.kernel\<close>, and line 124 reads \<^verbatim>\<open>self.kernel.metadata.shared\<close>), so that
  evaluation raises \<^verbatim>\<open>AttributeError\<close> and \<^verbatim>\<open>OutOfResources\<close> is never built.
\<close>

definition init_handles :: "driver \<Rightarrow> PreparedKernel \<Rightarrow> (pyerror + PreparedKernel) \<times> event list" where
  "init_handles drv self =
     (let self1 = self\<lparr>pk_run := (k_src (pk_kernel self), k_metadata_shared (pk_kernel self)),
                       dev_max_shared := max_shared_mem drv (device self)\<rparr>
      in if k_metadata_shared (pk_kernel self1) > dev_max_shared self1
         then (Inl (AttributeError ''metadata''), [])
         else (case load_binary drv (k_name (pk_kernel self1)) (k_kernel (pk_kernel self1))
                      (k_metadata_shared (pk_kernel self1)) (device self1) of
                 (m, f, regs, spills) \<Rightarrow>
                   (Inr (self1\<lparr>pk_module := m, pk_function := f, n_regs := regs, n_spills := spills\<rparr>),
                    [LoadBinary (k_name (pk_kernel self1)) (device self1)])))"

text \<open>
  \<^verbatim>\<open>PreparedKernel.__init__\<close> (lines 76 to 112). The fields \<^verbatim>\<open>kernel\<close>, \<^verbatim>\<open>run\<close>,
  \<^verbatim>\<open>module\<close> and \<^verbatim>\<open>function\<close> of the class are \<open>pk_kernel\<close>, \<open>pk_run\<close>, \<open>pk_module\<close>
  and \<open>pk_function\<close> here.
\<close>

definition PreparedKernel_init ::
  "driver \<Rightarrow> pyarg \<Rightarrow> pyval \<Rightarrow> bool \<Rightarrow> compiled_kernel \<Rightarrow> string \<Rightarrow> string \<Rightarrow> string \<Rightarrow>
   string list \<Rightarrow> string \<Rightarrow> nat \<Rightarrow> nat \<Rightarrow> (pyerror + PreparedKernel) \<times> event list" where
  "PreparedKernel_init drv grid_obj' grid_example cache_launch_grid' kernel' launch_metadata'
       launch_enter_hook' launch_exit_hook' non_const_arg_names' cache_key' device' stream' =
     (case py_len grid_example of Inl e \<Rightarrow> (Inl e, []) | Inr gsize \<Rightarrow>
      (case (if cache_launch_grid'
             then (case grid_dims grid_example gsize of Inl e \<Rightarrow> Inl e | Inr g \<Rightarrow> Inr (Some g))
             else Inr None) of
         Inl e \<Rightarrow> (Inl e, [])
       | Inr cg \<Rightarrow>
          (case init_handles drv
                  \<lparr>grid_obj = grid_obj', grid_is_callable = callable grid_obj', grid_size = gsize,
                   cache_launch_grid = cache_launch_grid', concrete_grid = cg, pk_kernel = kernel',
                   launch_metadata = launch_metadata', launch_enter_hook = launch_enter_hook',
                   launch_exit_hook = launch_exit_hook', non_const_arg_names = non_const_arg_names',
                   device = device', stream = stream', pk_run = ([], 0), dev_max_shared = 0,
                   pk_module = [], pk_function = [], n_regs = 0, n_spills = 0, cache_key = []\<rparr> of
             (Inl e, evs) \<Rightarrow> (Inl e, evs)
           | (Inr self, evs) \<Rightarrow> (Inr (self\<lparr>cache_key := cache_key'\<rparr>), evs))))"

text \<open>The loop of lines 141 to 144: \<^verbatim>\<open>kwargs[arg_n]\<close> for each name, in order.\<close>

fun non_constsexpr_vals :: "string list \<Rightarrow> kwargs \<Rightarrow> pyerror + pyarg list" where
  "non_constsexpr_vals [] kw = Inr []"
| "non_constsexpr_vals (arg_n # ns) kw =
     (case kw_get kw arg_n of Inl e \<Rightarrow> Inl e | Inr v \<Rightarrow>
      (case non_constsexpr_vals ns kw of Inl e \<Rightarrow> Inl e | Inr vs \<Rightarrow> Inr (v # vs)))"

text \<open>
  The grid of a call that does not use the memoized one (lines 149 to 156): the grid
  object of this call is called when the grid was callable at construction, and read as it
  is otherwise.
\<close>

definition call_grid :: "PreparedKernel \<Rightarrow> kwargs \<Rightarrow> pyerror + pyval \<times> pyval \<times> pyval" where
  "call_grid self kw =
     (case kw_get kw ''grid'' of Inl e \<Rightarrow> Inl e | Inr g \<Rightarrow>
      (case (if grid_is_callable self
             then (case g of Callable s f \<Rightarrow> Inr (f (vals_of kw)) | Val v \<Rightarrow> Inl TypeError)
             else (case g of Callable s f \<Rightarrow> Inl TypeError | Val v \<Rightarrow> Inr v)) of
         Inl e \<Rightarrow> Inl e
       | Inr grid \<Rightarrow>
          (case py_len grid of Inl e \<Rightarrow> Inl e | Inr gsize \<Rightarrow> grid_dims grid gsize)))"

text \<open>\<^verbatim>\<open>PreparedKernel.__call__\<close> (lines 138 to 169).\<close>

definition PreparedKernel_call :: "PreparedKernel \<Rightarrow> pyarg list \<Rightarrow> kwargs \<Rightarrow> pyerror + launch" where
  "PreparedKernel_call self args kw =
     (if length args \<noteq> 0 then Inl AssertionError
      else (case non_constsexpr_vals (non_const_arg_names self) kw of Inl e \<Rightarrow> Inl e | Inr vals \<Rightarrow>
        (case (if cache_launch_grid self
               then (case concrete_grid self of None \<Rightarrow> Inl TypeError | Some g \<Rightarrow> Inr g)
               else call_grid self kw) of
           Inl e \<Rightarrow> Inl e
         | Inr g \<Rightarrow>
            Inr \<lparr>l_launcher = pk_run self, l_grid = g, l_stream = stream self,
                 l_function = pk_function self,
                 l_packed_metadata = k_packed_metadata (pk_kernel self),
                 l_launch_metadata = launch_metadata self,
                 l_launch_enter_hook = launch_enter_hook self,
                 l_launch_exit_hook = launch_exit_hook self,
                 l_non_constsexpr_vals = vals\<rparr>)))"

definition get_key :: "PreparedKernel \<Rightarrow> string" where
  "get_key self = cache_key self"

section \<open>JitCache\<close>

record JitCache =
  arg_names :: "string list"
  fn :: jit_function
  cache_lock :: "nat option"
  jc_cache_launch_grid :: bool
  dynamic_mode :: bool
  check_keys :: "string list"
  kernel_cache :: "(string \<times> PreparedKernel) list"

text \<open>
  \<^verbatim>\<open>JitCache.__init__\<close> (lines 177 to 209), when its assertion on the installed Triton
  version holds; \<^verbatim>\<open>base_fn\<close>, which no method reads, is left out. \<^verbatim>\<open>self.run\<close> is
  \<^verbatim>\<open>_run_dynamic\<close> exactly when no lock is given.
\<close>

definition JitCache_init :: "jit_function \<Rightarrow> string list \<Rightarrow> string list \<Rightarrow> nat option \<Rightarrow> bool \<Rightarrow> JitCache" where
  "JitCache_init fn' arg_names' check_keys' cache_lock' cache_launch_grid' =
     \<lparr>arg_names = arg_names', fn = fn', cache_lock = cache_lock',
      jc_cache_launch_grid = cache_launch_grid', dynamic_mode = (cache_lock' = None),
      check_keys = check_keys', kernel_cache = []\<rparr>"

text \<open>
  \<^verbatim>\<open>calc_cache_index\<close> (lines 201 to 205): the loop appends \<^verbatim>\<open>str(kwargs[c_arg_name])\<close>
  to \<^verbatim>\<open>cache_key\<close>, and \<^verbatim>\<open>kwargs[c_arg_name]\<close> raises \<^verbatim>\<open>KeyError\<close> for a missing name.
\<close>

fun calc_cache_index_loop :: "string list \<Rightarrow> kwargs \<Rightarrow> string \<Rightarrow> pyerror + string" where
  "calc_cache_index_loop [] kw cache_key' = Inr cache_key'"
| "calc_cache_index_loop (c_arg_name # cs) kw cache_key' =
     (case kw_get kw c_arg_name of
        Inl e \<Rightarrow> Inl e
      | Inr v \<Rightarrow> calc_cache_index_loop cs kw (cache_key' @ py_str v))"

definition calc_cache_index :: "string list \<Rightarrow> kwargs \<Rightarrow> pyerror + string" where
  "calc_cache_index check_keys' kw = calc_cache_index_loop check_keys' kw []"

text \<open>\<^verbatim>\<open>self.cache_index_func\<close> (lines 207 to 209).\<close>

definition cache_index_func :: "JitCache \<Rightarrow> kwargs \<Rightarrow> pyerror + string" where
  "cache_index_func self kw =
     (if length (check_keys self) = 0 then Inr ''_default_''
      else calc_cache_index (check_keys self) kw)"

text \<open>
  The loop of lines 287 and 288 (and 326 and 327):
  \<^verbatim>\<open>assert type(kwargs[key]) in [int, bool, float]\<close> for each selector key.
\<close>

fun check_key_types :: "string list \<Rightarrow> kwargs \<Rightarrow> pyerror + unit" where
  "check_key_types [] kw = Inr ()"
| "check_key_types (key # ks) kw =
     (case kw_get kw key of
        Inl e \<Rightarrow> Inl e
      | Inr v \<Rightarrow> if type_in_int_bool_float v then check_key_types ks kw else Inl AssertionError)"

text \<open>The loop of lines 222 to 228: the names of the constant and of the other parameters.\<close>

fun classify_params :: "param list \<Rightarrow> string list \<times> string list" where
  "classify_params [] = ([], [])"
| "classify_params (p # ps) =
     (case classify_params ps of (const_arg_names, non_const_arg_names') \<Rightarrow>
        if is_constexpr p \<or> is_const p then (name p # const_arg_names, non_const_arg_names')
        else (const_arg_names, name p # non_const_arg_names'))"

definition check_keys_error :: string where
  "check_keys_error = ''[vllm.triton_utils.jit_cache] ERROR: check_keys must only contain parameters marked as tl.constexpr (non-constants will be updated in all cases).''"

definition kwargs_only_error :: string where
  "kwargs_only_error = ''[vllm.triton_utils.jit_cache] ERROR: The JITCache only supports kwargs, len(args) must be 0.''"

text \<open>
  \<^verbatim>\<open>_get_prepared_kernel\<close> (lines 211 to 273). Its \<^verbatim>\<open>kwargs\<close> is the dictionary of this
  call, so \<^verbatim>\<open>kwargs["warmup"] = True\<close> changes what the compiler, the grid and
  \<^verbatim>\<open>cache_index_func\<close> see here and nothing of the caller. The arguments of
  \<^verbatim>\<open>PreparedKernel(...)\<close>, the cache key among them, are evaluated before the constructor
  runs.
\<close>

definition get_prepared_kernel ::
  "JitCache \<Rightarrow> driver \<Rightarrow> pyarg list \<Rightarrow> kwargs \<Rightarrow> (pyerror + PreparedKernel) \<times> event list" where
  "get_prepared_kernel self drv args kwargs0 =
     (let kwargs = kwargs0(''warmup'' \<mapsto> Val (PyBool True)) in
      case fn_run (fn self) args kwargs of
        Inl e \<Rightarrow> (Inl e, [Compile args kwargs])
      | Inr kernel' \<Rightarrow>
         (case classify_params (params (fn self)) of (const_arg_names, non_const_arg_names') \<Rightarrow>
            if list_ex (\<lambda>x. x \<in> set (check_keys self)) non_const_arg_names'
            then (Inl (RuntimeError check_keys_error), [Compile args kwargs])
            else
              (let non_constexpr_vals = fn_bind (fn self) args kwargs in
               case kw_get kwargs ''grid'' of
                 Inl e \<Rightarrow> (Inl e, [Compile args kwargs])
               | Inr g \<Rightarrow>
                  (let grid = (case g of Callable s f \<Rightarrow> f (vals_of kwargs) | Val v \<Rightarrow> v);
                       device' = get_current_device drv;
                       stream' = get_current_stream drv device';
                       launch_metadata' = k_launch_metadata kernel' grid stream' non_constexpr_vals
                   in case cache_index_func self kwargs of
                        Inl e \<Rightarrow> (Inl e, [Compile args kwargs])
                      | Inr key \<Rightarrow>
                         (case PreparedKernel_init drv g grid (jc_cache_launch_grid self) kernel'
                                 launch_metadata' (fn_launch_enter_hook (fn self))
                                 (fn_launch_exit_hook (fn self)) non_const_arg_names' key
                                 device' stream' of
                            (Inl e, evs) \<Rightarrow> (Inl e, Compile args kwargs # evs)
                          | (Inr prepared_kernel, evs) \<Rightarrow>
                              (Inr prepared_kernel,
                               Compile args kwargs # evs @ [DebugCompilationTook]))))))"

text \<open>
  The grid as lines 243 to 246 resolve it, from the keyword arguments that
  \<^verbatim>\<open>_get_prepared_kernel\<close> holds: the grid object is called when it is callable and taken
  as it is otherwise.
\<close>

definition resolve_grid :: "kwargs \<Rightarrow> pyerror + pyval" where
  "resolve_grid kw =
     (case kw_get kw ''grid'' of
        Inl e \<Rightarrow> Inl e
      | Inr g \<Rightarrow> Inr (case g of Callable s f \<Rightarrow> f (vals_of kw) | Val v \<Rightarrow> v))"

text \<open>\<^verbatim>\<open>"pre_hook" not in kwargs or kwargs["pre_hook"] is None\<close>\<close>

fun is_None :: "pyarg \<Rightarrow> bool" where
  "is_None (Val PyNone) = True"
| "is_None v = False"

definition no_pre_hook :: "kwargs \<Rightarrow> bool" where
  "no_pre_hook kw = (case kw ''pre_hook'' of None \<Rightarrow> True | Some v \<Rightarrow> is_None v)"

fun is_KeyError :: "pyerror \<Rightarrow> bool" where
  "is_KeyError (KeyError k) = True"
| "is_KeyError e = False"

text \<open>
  \<^verbatim>\<open>self.kernel_cache[self.cache_index_func(kwargs)]\<close>, the body of the \<^verbatim>\<open>try\<close> of
  lines 298 and 319.
\<close>

definition lookup_variant :: "JitCache \<Rightarrow> kwargs \<Rightarrow> pyerror + PreparedKernel" where
  "lookup_variant self kw =
     (case cache_index_func self kw of
        Inl e \<Rightarrow> Inl e
      | Inr key \<Rightarrow> dict_get (kernel_cache self) key)"

text \<open>
  \<^verbatim>\<open>_run_static\<close> (lines 275 to 307). The \<^verbatim>\<open>except KeyError\<close> handler formats its message
  with \<^verbatim>\<open>cache_index_func\<close> again before it prints; when that raises, that exception leaves
  the handler and nothing is printed.
\<close>

definition run_static ::
  "JitCache \<Rightarrow> lock_store \<Rightarrow> driver \<Rightarrow> pyarg list \<Rightarrow> kwargs \<Rightarrow> (pyerror + launch) \<times> JitCache \<times> event list" where
  "run_static self locks drv args kw =
     (if length args \<noteq> 0 then (Inl (RuntimeError kwargs_only_error), self, [])
      else if \<not> no_pre_hook kw then (Inl AssertionError, self, [])
      else (case cache_lock self of
          None \<Rightarrow> (Inl (AttributeError ''is_locked''), self, [])
        | Some r \<Rightarrow>
           (case (if \<not> is_locked (locks r)
                  then (case check_key_types (check_keys self) kw of
                          Inl e \<Rightarrow> (Inl e, self, [])
                        | Inr u \<Rightarrow>
                           (case get_prepared_kernel self drv args kw of
                              (Inl e, evs) \<Rightarrow> (Inl e, self, evs)
                            | (Inr prepared_kernel, evs) \<Rightarrow>
                               (Inr (),
                                self\<lparr>kernel_cache :=
                                  dict_set (get_key prepared_kernel) prepared_kernel (kernel_cache self)\<rparr>,
                                evs @ (if map_of (kernel_cache self) (get_key prepared_kernel) \<noteq> None
                                       then [DebugAlreadyCached] else []))))
                  else (Inr (), self, [])) of
              (Inl e, self1, evs) \<Rightarrow> (Inl e, self1, evs)
            | (Inr u, self1, evs) \<Rightarrow>
               (case lookup_variant self1 kw of
                  Inr kernel_variant \<Rightarrow> (PreparedKernel_call kernel_variant args kw, self1, evs)
                | Inl e \<Rightarrow>
                   if \<not> is_KeyError e then (Inl e, self1, evs)
                   else (case cache_index_func self1 kw of
                           Inl e' \<Rightarrow> (Inl e', self1, evs)
                         | Inr key \<Rightarrow>
                            (Inl e, self1,
                             evs @ [PrintNotInCache key (dict_keys (kernel_cache self1)),
                                    PrintException e]))))))"

text \<open>
  \<^verbatim>\<open>_run_dynamic\<close> (lines 309 to 331). The handler logs the key (computed again) and the
  cached keys, checks the types, compiles, stores the new variant under the key it carries
  and calls that variant.
\<close>

definition run_dynamic ::
  "JitCache \<Rightarrow> driver \<Rightarrow> pyarg list \<Rightarrow> kwargs \<Rightarrow> (pyerror + launch) \<times> JitCache \<times> event list" where
  "run_dynamic self drv args kw =
     (if length args \<noteq> 0 then (Inl (RuntimeError kwargs_only_error), self, [])
      else if \<not> no_pre_hook kw then (Inl AssertionError, self, [])
      else (case lookup_variant self kw of
          Inr kernel_variant \<Rightarrow> (PreparedKernel_call kernel_variant args kw, self, [])
        | Inl e \<Rightarrow>
           if \<not> is_KeyError e then (Inl e, self, [])
           else (case cache_index_func self kw of
                   Inl e' \<Rightarrow> (Inl e', self, [])
                 | Inr key \<Rightarrow>
                    (case check_key_types (check_keys self) kw of
                       Inl e' \<Rightarrow>
                         (Inl e', self, [DebugNotInCacheCompiling key (dict_keys (kernel_cache self))])
                     | Inr u \<Rightarrow>
                        (case get_prepared_kernel self drv args kw of
                           (Inl e', evs) \<Rightarrow>
                             (Inl e', self,
                              DebugNotInCacheCompiling key (dict_keys (kernel_cache self)) # evs)
                         | (Inr kernel_variant, evs) \<Rightarrow>
                             (PreparedKernel_call kernel_variant args kw,
                              self\<lparr>kernel_cache :=
                                dict_set (get_key kernel_variant) kernel_variant (kernel_cache self)\<rparr>,
                              DebugNotInCacheCompiling key (dict_keys (kernel_cache self)) # evs))))))"

text \<open>\<^verbatim>\<open>self.run\<close>, as the constructor chose it (lines 193 to 197).\<close>

definition run ::
  "JitCache \<Rightarrow> lock_store \<Rightarrow> driver \<Rightarrow> pyarg list \<Rightarrow> kwargs \<Rightarrow> (pyerror + launch) \<times> JitCache \<times> event list" where
  "run self locks drv args kw =
     (if dynamic_mode self then run_dynamic self drv args kw
      else run_static self locks drv args kw)"

text \<open>
  A sequence of calls on one cache. Each call comes with the lock store and the driver as
  they are when it is made; the cache it runs on is the one the calls before it left.
\<close>

type_synonym invocation = "lock_store \<times> driver \<times> pyarg list \<times> kwargs"

fun after_calls :: "JitCache \<Rightarrow> invocation list \<Rightarrow> JitCache" where
  "after_calls self [] = self"
| "after_calls self ((locks, drv, args, kw) # cs) =
     after_calls (fst (snd (run self locks drv args kw))) cs"

section \<open>The cache key as the specification words it\<close>

text \<open>
  The concatenation of the string representations of the selector values, in the order of
  the selector keys, and one fixed key when there are none.
\<close>

definition cache_key_of_values :: "pyarg list \<Rightarrow> string" where
  "cache_key_of_values vs = (if vs = [] then ''_default_'' else concat (map py_str vs))"

section \<open>A concrete kernel, driver and cache\<close>

text \<open>
  A kernel with one runtime parameter \<^verbatim>\<open>x\<close> and two constants \<^verbatim>\<open>A\<close> and \<^verbatim>\<open>B\<close>, on a
  device with 49152 bytes of shared memory, and a second device with 512.
\<close>

definition ex_kernel :: compiled_kernel where
  "ex_kernel = \<lparr>k_src = ''src'', k_name = ''kernel'', k_kernel = ''cubin'', k_metadata_shared = 1024,
     k_packed_metadata = ''packed'', k_launch_metadata = (\<lambda>grid stream vals. ''launch_metadata'')\<rparr>"

definition ex_fn :: jit_function where
  "ex_fn = \<lparr>params = [\<lparr>name = ''x'', is_constexpr = False, is_const = False\<rparr>,
                      \<lparr>name = ''A'', is_constexpr = True, is_const = False\<rparr>,
                      \<lparr>name = ''B'', is_constexpr = True, is_const = False\<rparr>],
            fn_run = (\<lambda>args kw. Inr ex_kernel),
            fn_bind = (\<lambda>args kw. case kw ''x'' of None \<Rightarrow> [] | Some v \<Rightarrow> [v]),
            fn_launch_enter_hook = ''enter'', fn_launch_exit_hook = ''exit''\<rparr>"

definition ex_driver :: driver where
  "ex_driver = \<lparr>get_current_device = 0, get_current_stream = (\<lambda>d. 7),
                max_shared_mem = (\<lambda>d. 49152),
                load_binary = (\<lambda>n k s d. (''module'', ''function'', 32, 0))\<rparr>"

definition ex_small_driver :: driver where
  "ex_small_driver = ex_driver\<lparr>max_shared_mem := (\<lambda>d. 512)\<rparr>"

definition ex_grid :: pyarg where
  "ex_grid = Val (PySeq ''(128,)'' [PyInt 128])"

definition ex_kwargs :: "pyval \<Rightarrow> pyval \<Rightarrow> kwargs" where
  "ex_kwargs a b = map_of [(''x'', Val (PyInt 5)), (''A'', Val a), (''B'', Val b), (''grid'', ex_grid)]"

text \<open>A dynamic cache and a static one (its lock at address 0), both selecting on A and B.\<close>

definition ex_dynamic :: JitCache where
  "ex_dynamic = JitCache_init ex_fn [''x'', ''A'', ''B''] [''A'', ''B''] None False"

definition ex_static :: JitCache where
  "ex_static = JitCache_init ex_fn [''x'', ''A'', ''B''] [''A'', ''B''] (Some 0) False"

definition ex_unlocked :: lock_store where
  "ex_unlocked = (\<lambda>r. CacheLock_init ''global'')"

definition ex_locked :: lock_store where
  "ex_locked = (\<lambda>r. lock (CacheLock_init ''global''))"

text \<open>The variant that the kernel above gives for the key 123.\<close>

definition ex_prepared :: PreparedKernel where
  "ex_prepared =
     \<lparr>grid_obj = ex_grid, grid_is_callable = False, grid_size = 1, cache_launch_grid = False,
      concrete_grid = None, pk_kernel = ex_kernel, launch_metadata = ''launch_metadata'',
      launch_enter_hook = ''enter'', launch_exit_hook = ''exit'', non_const_arg_names = [''x''],
      device = 0, stream = 7, pk_run = (''src'', 1024), dev_max_shared = 49152,
      pk_module = ''module'', pk_function = ''function'', n_regs = 32, n_spills = 0,
      cache_key = ''123''\<rparr>"

definition ex_launch :: launch where
  "ex_launch =
     \<lparr>l_launcher = (''src'', 1024), l_grid = (PyInt 128, PyInt 1, PyInt 1), l_stream = 7,
      l_function = ''function'', l_packed_metadata = ''packed'',
      l_launch_metadata = ''launch_metadata'', l_launch_enter_hook = ''enter'',
      l_launch_exit_hook = ''exit'', l_non_constsexpr_vals = [Val (PyInt 5)]\<rparr>"

text \<open>The cache with no selector keys.\<close>

definition ex_no_keys :: JitCache where
  "ex_no_keys = JitCache_init ex_fn [''x'', ''A'', ''B''] [] None False"

text \<open>A cache whose second selector key is the runtime parameter \<^verbatim>\<open>x\<close>.\<close>

definition ex_bad :: JitCache where
  "ex_bad = JitCache_init ex_fn [''x'', ''A'', ''B''] [''A'', ''x''] None False"

text \<open>
  A callable grid that depends on the runtime argument \<^verbatim>\<open>x\<close>, calls that pass it, and the
  variant prepared with a memoized grid while that callable gave \<^verbatim>\<open>(128,)\<close>.
\<close>

definition ex_grid_fn :: pyarg where
  "ex_grid_fn = Callable ''<function grid>''
     (\<lambda>vals. case vals ''x'' of Some (PyInt n) \<Rightarrow> PySeq [] [PyInt (128 * n)] | _ \<Rightarrow> PySeq [] [])"

definition ex_kwargs_x :: "int \<Rightarrow> kwargs" where
  "ex_kwargs_x n = map_of [(''x'', Val (PyInt n)), (''A'', Val (PyInt 12)), (''B'', Val (PyInt 3)),
                            (''grid'', ex_grid_fn)]"

definition ex_prepared_static :: PreparedKernel where
  "ex_prepared_static =
     ex_prepared\<lparr>grid_obj := ex_grid_fn, grid_is_callable := True, cache_launch_grid := True,
                 concrete_grid := Some (PyInt 128, PyInt 1, PyInt 1)\<rparr>"

text \<open>A dynamic and a static cache that memoize the launch grid.\<close>

definition ex_dynamic_grid :: JitCache where
  "ex_dynamic_grid = JitCache_init ex_fn [''x'', ''A'', ''B''] [''A'', ''B''] None True"

definition ex_static_grid :: JitCache where
  "ex_static_grid = JitCache_init ex_fn [''x'', ''A'', ''B''] [''A'', ''B''] (Some 0) True"

section \<open>Facts about the model\<close>

subsection \<open>Dictionaries and keys\<close>

lemma map_of_dict_set: "map_of (dict_set k v d) = (map_of d)(k \<mapsto> v)"
  by (induction d) (auto simp: fun_eq_iff)

lemma dict_keys_dict_set_present:
  "map_of d k = Some old \<Longrightarrow> dict_keys (dict_set k v d) = dict_keys d"
  by (induction d) (auto simp: dict_keys_def split: if_splits)

lemma dict_keys_dict_set_new:
  "map_of d k = None \<Longrightarrow> dict_keys (dict_set k v d) = dict_keys d @ [k]"
  by (induction d) (auto simp: dict_keys_def split: if_splits)

lemma calc_cache_index_loop_values:
  "map kw ks = map Some vs \<Longrightarrow>
   calc_cache_index_loop ks kw acc = Inr (acc @ concat (map py_str vs))"
proof (induction ks arbitrary: vs acc)
  case Nil
  then show ?case by simp
next
  case (Cons k ks)
  then obtain v vs' where vs: "vs = v # vs'" "kw k = Some v" "map kw ks = map Some vs'"
    by (cases vs) auto
  with Cons.IH [of vs' "acc @ py_str v"] show ?case
    by (simp add: kw_get_def)
qed

lemma calc_cache_index_loop_cong:
  "map kw1 ks = map kw2 ks \<Longrightarrow>
   calc_cache_index_loop ks kw1 acc = calc_cache_index_loop ks kw2 acc"
  by (induction ks arbitrary: acc) (auto simp: kw_get_def split: option.splits)

lemma cache_index_func_cong:
  "map kw1 (check_keys self) = map kw2 (check_keys self) \<Longrightarrow>
   cache_index_func self kw1 = cache_index_func self kw2"
  by (simp add: cache_index_func_def calc_cache_index_def calc_cache_index_loop_cong)

lemma cache_index_func_warmup:
  "''warmup'' \<notin> set (check_keys self) \<Longrightarrow>
   cache_index_func self (kw(''warmup'' \<mapsto> v)) = cache_index_func self kw"
  by (rule cache_index_func_cong) auto

lemma cache_index_func_kernel_cache:
  "cache_index_func (self\<lparr>kernel_cache := c\<rparr>) kw = cache_index_func self kw"
  by (simp add: cache_index_func_def)

lemma cache_index_func_KeyError: "cache_index_func self kw = Inl e \<Longrightarrow> is_KeyError e"
proof -
  have "calc_cache_index_loop ks kw acc = Inl e \<Longrightarrow> is_KeyError e" for ks acc
    by (induction ks arbitrary: acc) (auto simp: kw_get_def split: option.splits)
  then show "cache_index_func self kw = Inl e \<Longrightarrow> is_KeyError e"
    by (auto simp: cache_index_func_def calc_cache_index_def split: if_splits)
qed

lemma lookup_variant_kernel_cache:
  "lookup_variant (self\<lparr>kernel_cache := c\<rparr>) kw =
     (case cache_index_func self kw of Inl e \<Rightarrow> Inl e | Inr key \<Rightarrow> dict_get c key)"
  by (simp add: lookup_variant_def cache_index_func_kernel_cache split: sum.splits)

lemma check_key_types_bad:
  "k \<in> set ks \<Longrightarrow> kw k = Some v \<Longrightarrow> \<not> type_in_int_bool_float v \<Longrightarrow>
   \<exists>e. check_key_types ks kw = Inl e"
  by (induction ks) (auto simp: kw_get_def split: option.splits)

subsection \<open>The lock\<close>

lemma lock_calls_unlocked:
  "CallLock \<notin> set cs \<Longrightarrow> \<not> is_locked l \<Longrightarrow> \<not> is_locked (lock_calls cs l)"
proof (induction cs arbitrary: l)
  case Nil
  then show ?case by simp
next
  case (Cons c cs)
  then show ?case by (cases c) (simp_all add: unlock_def)
qed

subsection \<open>Events and prepared kernels\<close>

lemma count_compiles_simps:
  "count_compiles [] = 0"
  "count_compiles (Compile args kw # evs) = Suc (count_compiles evs)"
  "count_compiles (LoadBinary n d # evs) = count_compiles evs"
  "count_compiles (DebugCompilationTook # evs) = count_compiles evs"
  "count_compiles (DebugAlreadyCached # evs) = count_compiles evs"
  "count_compiles (DebugNotInCacheCompiling k ks # evs) = count_compiles evs"
  "count_compiles (PrintNotInCache k ks # evs) = count_compiles evs"
  "count_compiles (PrintException e # evs) = count_compiles evs"
  "count_compiles (evs @ evs') = count_compiles evs + count_compiles evs'"
  by (simp_all add: count_compiles_def)

lemma init_handles_over_capacity:
  "k_metadata_shared (pk_kernel self) > max_shared_mem drv (device self) \<Longrightarrow>
   init_handles drv self = (Inl (AttributeError ''metadata''), [])"
  by (simp add: init_handles_def Let_def)

lemma init_handles_events:
  "init_handles drv pk = (res, evs) \<Longrightarrow> count_compiles evs = 0"
  by (auto simp: init_handles_def Let_def count_compiles_simps split: if_splits prod.splits)

lemma PreparedKernel_init_events:
  "PreparedKernel_init drv g ge clg k lm eh xh names key dev str = (res, evs) \<Longrightarrow>
   count_compiles evs = 0"
  by (auto simp: PreparedKernel_init_def count_compiles_simps
      split: sum.splits if_splits prod.splits dest: init_handles_events)

lemma PreparedKernel_init_key:
  "PreparedKernel_init drv g ge clg k lm eh xh names key dev str = (Inr pk, evs) \<Longrightarrow>
   get_key pk = key"
  by (auto simp: PreparedKernel_init_def get_key_def split: sum.splits if_splits prod.splits)

lemma get_prepared_kernel_compiles_once:
  "get_prepared_kernel self drv args kw = (res, evs) \<Longrightarrow> count_compiles evs = 1"
  by (auto simp: get_prepared_kernel_def Let_def count_compiles_simps
      split: sum.splits if_splits prod.splits dest: PreparedKernel_init_events)

lemma get_prepared_kernel_key:
  "get_prepared_kernel self drv args kw = (Inr pk, evs) \<Longrightarrow>
   cache_index_func self (kw(''warmup'' \<mapsto> Val (PyBool True))) = Inr (get_key pk)"
  by (auto simp: get_prepared_kernel_def Let_def
      split: sum.splits if_splits prod.splits dest: PreparedKernel_init_key)

lemma init_handles_fields:
  "init_handles drv pk = (Inr pk', evs) \<Longrightarrow>
   cache_launch_grid pk' = cache_launch_grid pk \<and> concrete_grid pk' = concrete_grid pk
   \<and> non_const_arg_names pk' = non_const_arg_names pk"
  by (auto simp: init_handles_def Let_def split: if_splits prod.splits)

lemma PreparedKernel_init_static_grid:
  assumes "PreparedKernel_init drv g grid_example True k lm eh xh names key dev str = (Inr pk, evs)"
  shows "\<exists>n dims. py_len grid_example = Inr n \<and> grid_dims grid_example n = Inr dims
           \<and> concrete_grid pk = Some dims \<and> cache_launch_grid pk \<and> non_const_arg_names pk = names"
  using assms
  by (auto simp: PreparedKernel_init_def split: sum.splits prod.splits dest!: init_handles_fields)

lemma non_constsexpr_vals_other_key:
  "k \<notin> set names \<Longrightarrow> non_constsexpr_vals names (kw(k := g)) = non_constsexpr_vals names kw"
  by (induction names) (auto simp: kw_get_def split: option.splits)

lemma non_constsexpr_vals_present:
  "list_all (\<lambda>n. kw n \<noteq> None) names \<Longrightarrow> \<exists>vs. non_constsexpr_vals names kw = Inr vs"
  by (induction names) (auto simp: kw_get_def)

lemma PreparedKernel_static_grid:
  assumes init: "PreparedKernel_init drv g grid_example True k lm eh xh names key dev str = (Inr pk, evs)"
  shows "\<exists>n grid_0 grid_1 grid_2.
           py_len grid_example = Inr n
           \<and> py_getitem grid_example 0 = Inr grid_0
           \<and> (if n > 1 then py_getitem grid_example 1 = Inr grid_1 else grid_1 = PyInt 1)
           \<and> (if n > 2 then py_getitem grid_example 2 = Inr grid_2 else grid_2 = PyInt 1)
           \<and> concrete_grid pk = Some (grid_0, grid_1, grid_2)
           \<and> cache_launch_grid pk \<and> non_const_arg_names pk = names"
proof -
  from PreparedKernel_init_static_grid [OF init] obtain n dims where
    n: "py_len grid_example = Inr n" and d: "grid_dims grid_example n = Inr dims"
    and c: "concrete_grid pk = Some dims" "cache_launch_grid pk" "non_const_arg_names pk = names"
    by blast
  obtain grid_0 grid_1 grid_2 where dims: "dims = (grid_0, grid_1, grid_2)"
    by (cases dims) auto
  from d dims have items: "py_getitem grid_example 0 = Inr grid_0"
      "if n > 1 then py_getitem grid_example 1 = Inr grid_1 else grid_1 = PyInt 1"
      "if n > 2 then py_getitem grid_example 2 = Inr grid_2 else grid_2 = PyInt 1"
    by (auto simp: grid_dims_def split: sum.splits if_splits)
  from n items c dims show ?thesis by blast
qed

lemma PreparedKernel_call_memoized:
  assumes "cache_launch_grid pk" "concrete_grid pk = Some dims"
  shows "PreparedKernel_call pk [] kw = Inr l \<Longrightarrow> l_grid l = dims"
    and "''grid'' \<notin> set (non_const_arg_names pk) \<Longrightarrow>
         PreparedKernel_call pk [] (kw(''grid'' := g')) = PreparedKernel_call pk [] kw"
  using assms
  by (auto simp: PreparedKernel_call_def non_constsexpr_vals_other_key split: sum.splits)

lemma get_prepared_kernel_init:
  assumes prep: "get_prepared_kernel self drv args kw = (Inr pk, evs)"
  shows "\<exists>g grid k lm key evs'.
           kw_get (kw(''warmup'' \<mapsto> Val (PyBool True))) ''grid'' = Inr g
           \<and> resolve_grid (kw(''warmup'' \<mapsto> Val (PyBool True))) = Inr grid
           \<and> PreparedKernel_init drv g grid (jc_cache_launch_grid self) k lm
                (fn_launch_enter_hook (fn self)) (fn_launch_exit_hook (fn self))
                (snd (classify_params (params (fn self)))) key
                (get_current_device drv) (get_current_stream drv (get_current_device drv))
              = (Inr pk, evs')"
  using prep
  by (auto simp: get_prepared_kernel_def resolve_grid_def Let_def
      split: sum.splits if_splits prod.splits)

subsection \<open>A selector key that is a runtime parameter\<close>

lemma classify_params_non_const:
  "set (snd (classify_params ps)) = {name p | p. p \<in> set ps \<and> \<not> is_constexpr p \<and> \<not> is_const p}"
  by (induction ps) (auto split: prod.splits)

lemma get_prepared_kernel_bad_config:
  assumes bad: "p \<in> set (params (fn self))" "\<not> is_constexpr p" "\<not> is_const p"
      "name p \<in> set (check_keys self)"
  shows "get_prepared_kernel self drv args kw =
     (case fn_run (fn self) args (kw(''warmup'' \<mapsto> Val (PyBool True))) of
        Inl e \<Rightarrow> Inl e
      | Inr kernel' \<Rightarrow> Inl (RuntimeError check_keys_error),
      [Compile args (kw(''warmup'' \<mapsto> Val (PyBool True)))])"
proof -
  from bad have "name p \<in> set (snd (classify_params (params (fn self))))"
    unfolding classify_params_non_const by blast
  with bad(4) have "list_ex (\<lambda>x. x \<in> set (check_keys self)) (snd (classify_params (params (fn self))))"
    unfolding list_ex_iff by blast
  then show ?thesis
    by (auto simp: get_prepared_kernel_def Let_def split: sum.splits prod.splits)
qed

lemma run_bad_config:
  assumes bad: "p \<in> set (params (fn self))" "\<not> is_constexpr p" "\<not> is_const p"
      "name p \<in> set (check_keys self)"
    and empty: "kernel_cache self = []"
  shows "\<exists>e evs. run self locks drv args kw = (Inl e, self, evs)"
proof -
  note g = get_prepared_kernel_bad_config [OF bad]
  show ?thesis
  proof (cases "dynamic_mode self")
    case True
    with empty show ?thesis
      by (auto simp: run_def run_dynamic_def lookup_variant_def dict_get_def g
          split: sum.splits)
  next
    case False
    with empty show ?thesis
      by (auto simp: run_def run_static_def lookup_variant_def dict_get_def g
          split: sum.splits option.splits)
  qed
qed

lemma after_calls_bad_config:
  assumes bad: "p \<in> set (params (fn self))" "\<not> is_constexpr p" "\<not> is_const p"
      "name p \<in> set (check_keys self)"
    and empty: "kernel_cache self = []"
  shows "after_calls self calls = self"
proof (induction calls)
  case Nil
  show ?case by simp
next
  case (Cons c calls)
  obtain locks drv args kw where c: "c = (locks, drv, args, kw)"
    by (cases c) auto
  from run_bad_config [OF bad empty, of locks drv args kw]
  have "fst (snd (run self locks drv args kw)) = self" by auto
  with Cons c show ?case by simp
qed

subsection \<open>Entries stay in a dynamic cache\<close>

lemma run_dynamic_keeps_entry:
  assumes warm: "''warmup'' \<notin> set (check_keys self)"
    and entry: "map_of (kernel_cache self) key = Some pk"
  shows "\<exists>c. fst (snd (run_dynamic self drv args kw)) = self\<lparr>kernel_cache := c\<rparr>
           \<and> map_of c key = Some pk"
proof -
  have same: "\<exists>c. self = self\<lparr>kernel_cache := c\<rparr> \<and> map_of c key = Some pk"
    using entry by (intro exI [of _ "kernel_cache self"]) simp
  have ins: "\<exists>c. self\<lparr>kernel_cache := dict_set (get_key pk') pk' (kernel_cache self)\<rparr> =
                  self\<lparr>kernel_cache := c\<rparr> \<and> map_of c key = Some pk"
    if "get_prepared_kernel self drv args kw = (Inr pk', evs)"
      and "cache_index_func self kw = Inr k0" and "map_of (kernel_cache self) k0 = None"
    for pk' evs k0
  proof -
    from get_prepared_kernel_key [OF that(1)] warm that(2) have "get_key pk' = k0"
      by (simp add: cache_index_func_warmup)
    with that(3) entry have "get_key pk' \<noteq> key" by auto
    with entry show ?thesis
      by (intro exI [of _ "dict_set (get_key pk') pk' (kernel_cache self)"])
        (simp add: map_of_dict_set)
  qed
  show ?thesis
    using same ins
    by (auto simp: run_dynamic_def lookup_variant_def dict_get_def
        split: sum.splits option.splits prod.splits)
qed

lemma after_calls_dynamic_keeps_entry:
  assumes "dynamic_mode self" "''warmup'' \<notin> set (check_keys self)"
    and "map_of (kernel_cache self) key = Some pk"
  shows "\<exists>c. after_calls self calls = self\<lparr>kernel_cache := c\<rparr> \<and> map_of c key = Some pk"
  using assms
proof (induction calls arbitrary: self)
  case Nil
  then show ?case by (intro exI [of _ "kernel_cache self"]) simp
next
  case (Cons c calls)
  obtain locks drv args kw where c: "c = (locks, drv, args, kw)"
    by (cases c) auto
  from run_dynamic_keeps_entry [OF Cons.prems(2,3), of drv args kw] obtain c1 where
    c1: "fst (snd (run_dynamic self drv args kw)) = self\<lparr>kernel_cache := c1\<rparr>"
      "map_of c1 key = Some pk"
    by blast
  let ?self1 = "self\<lparr>kernel_cache := c1\<rparr>"
  have "\<exists>c. after_calls ?self1 calls = ?self1\<lparr>kernel_cache := c\<rparr> \<and> map_of c key = Some pk"
    using Cons.prems c1 by (intro Cons.IH) simp_all
  then show ?case
    using c c1 Cons.prems(1) by (auto simp: run_def)
qed

subsection \<open>What a call stores and what later calls find\<close>

lemma run_static_locked_hit:
  assumes "cache_lock self = Some r" "is_locked (locks r)" "no_pre_hook kw"
    and "cache_index_func self kw = Inr key" "map_of (kernel_cache self) key = Some pk"
  shows "run_static self locks drv [] kw = (PreparedKernel_call pk [] kw, self, [])"
  using assms
  by (simp add: run_static_def lookup_variant_def dict_get_def)

lemma run_static_unlocked_stores:
  assumes "cache_lock self = Some r" "\<not> is_locked (locks r)" "no_pre_hook kw"
    and "check_key_types (check_keys self) kw = Inr ()"
    and "get_prepared_kernel self drv [] kw = (Inr pk, evs)"
    and "cache_index_func self kw = Inr key" "''warmup'' \<notin> set (check_keys self)"
  shows "fst (run_static self locks drv [] kw) = PreparedKernel_call pk [] kw
         \<and> fst (snd (run_static self locks drv [] kw)) =
             self\<lparr>kernel_cache := dict_set key pk (kernel_cache self)\<rparr>"
proof -
  have k: "get_key pk = key"
    using get_prepared_kernel_key [OF assms(5)] assms(6,7) by (simp add: cache_index_func_warmup)
  show ?thesis
    using assms(1-6) k
    by (simp add: run_static_def lookup_variant_def cache_index_func_kernel_cache dict_get_def
        map_of_dict_set)
qed

lemma run_dynamic_miss_stores:
  assumes "dynamic_mode self" "no_pre_hook kw"
    and "check_key_types (check_keys self) kw = Inr ()"
    and "get_prepared_kernel self drv [] kw = (Inr pk, evs)"
    and "cache_index_func self kw = Inr key" "map_of (kernel_cache self) key = None"
    and "''warmup'' \<notin> set (check_keys self)"
  shows "fst (run self locks drv [] kw) = PreparedKernel_call pk [] kw
         \<and> fst (snd (run self locks drv [] kw)) =
             self\<lparr>kernel_cache := dict_set key pk (kernel_cache self)\<rparr>"
proof -
  have k: "get_key pk = key"
    using get_prepared_kernel_key [OF assms(4)] assms(5,7) by (simp add: cache_index_func_warmup)
  show ?thesis
    using assms(1-6) k
    by (simp add: run_def run_dynamic_def lookup_variant_def dict_get_def)
qed

lemma run_dynamic_later_hit:
  assumes dyn: "dynamic_mode self" and warm: "''warmup'' \<notin> set (check_keys self)"
    and key: "cache_index_func self kw = Inr key"
    and pre: "no_pre_hook kw2" and same: "map kw2 (check_keys self) = map kw (check_keys self)"
  shows "run (after_calls (self\<lparr>kernel_cache := dict_set key pk (kernel_cache self)\<rparr>) calls)
             locks2 drv2 [] kw2 =
           (PreparedKernel_call pk [] kw2,
            after_calls (self\<lparr>kernel_cache := dict_set key pk (kernel_cache self)\<rparr>) calls, [])"
proof -
  let ?self1 = "self\<lparr>kernel_cache := dict_set key pk (kernel_cache self)\<rparr>"
  have "map_of (kernel_cache ?self1) key = Some pk" by (simp add: map_of_dict_set)
  with after_calls_dynamic_keeps_entry [of ?self1 key pk calls] dyn warm
  obtain c where c: "after_calls ?self1 calls = self\<lparr>kernel_cache := c\<rparr>" "map_of c key = Some pk"
    by auto
  from same key have "cache_index_func self kw2 = Inr key"
    using cache_index_func_cong [of kw2 self kw] by simp
  with c pre dyn show ?thesis
    by (simp add: run_def run_dynamic_def lookup_variant_kernel_cache dict_get_def)
qed

section \<open>Evaluating the example\<close>

lemma str_int_12: "str_int 12 = ''12''"
  by code_simp

lemma str_int_3: "str_int 3 = ''3''"
  by code_simp

lemma str_int_1: "str_int 1 = ''1''"
  by code_simp

lemma str_int_23: "str_int 23 = ''23''"
  by code_simp

lemma ex_kwargs_simps:
  "ex_kwargs a b ''x'' = Some (Val (PyInt 5))"
  "ex_kwargs a b ''A'' = Some (Val a)"
  "ex_kwargs a b ''B'' = Some (Val b)"
  "ex_kwargs a b ''grid'' = Some ex_grid"
  "ex_kwargs a b ''pre_hook'' = None"
  "ex_kwargs a b ''warmup'' = None"
  by (simp_all add: ex_kwargs_def)

lemma ex_dynamic_simps:
  "check_keys ex_dynamic = [''A'', ''B'']"
  "kernel_cache ex_dynamic = []"
  "fn ex_dynamic = ex_fn"
  "jc_cache_launch_grid ex_dynamic = False"
  "dynamic_mode ex_dynamic = True"
  "cache_lock ex_dynamic = None"
  by (simp_all add: ex_dynamic_def JitCache_init_def)

lemma ex_static_simps:
  "check_keys ex_static = [''A'', ''B'']"
  "kernel_cache ex_static = []"
  "fn ex_static = ex_fn"
  "jc_cache_launch_grid ex_static = False"
  "dynamic_mode ex_static = False"
  "cache_lock ex_static = Some 0"
  by (simp_all add: ex_static_def JitCache_init_def)

lemma ex_bad_simps:
  "check_keys ex_bad = [''A'', ''x'']"
  "kernel_cache ex_bad = []"
  "fn ex_bad = ex_fn"
  by (simp_all add: ex_bad_def JitCache_init_def)

lemma ex_key:
  "cache_index_func ex_dynamic (ex_kwargs (PyInt a) (PyInt b)) = Inr (str_int a @ str_int b)"
  by (simp add: cache_index_func_def calc_cache_index_def kw_get_def ex_dynamic_simps ex_kwargs_simps)

lemma ex_prepare:
  assumes "fn self = ex_fn" "check_keys self = [''A'', ''B'']" "\<not> jc_cache_launch_grid self"
    and "str_int a @ str_int b = ''123''"
  shows "get_prepared_kernel self ex_driver [] (ex_kwargs (PyInt a) (PyInt b)) =
     (Inr ex_prepared,
      [Compile [] ((ex_kwargs (PyInt a) (PyInt b))(''warmup'' \<mapsto> Val (PyBool True))),
       LoadBinary ''kernel'' 0, DebugCompilationTook])"
  using assms
  by (simp add: get_prepared_kernel_def ex_fn_def ex_kernel_def
      ex_driver_def ex_kwargs_simps ex_grid_def ex_prepared_def kw_get_def cache_index_func_def
      calc_cache_index_def PreparedKernel_init_def init_handles_def Let_def)

lemma ex_call_prepared:
  "PreparedKernel_call ex_prepared [] (ex_kwargs a b) = Inr ex_launch"
  by (simp add: ex_prepared_def PreparedKernel_call_def call_grid_def kw_get_def ex_grid_def
      grid_dims_def ex_launch_def ex_kernel_def ex_kwargs_simps)

lemma ex_first_call:
  "run_dynamic ex_dynamic ex_driver [] (ex_kwargs (PyInt 12) (PyInt 3)) =
     (Inr ex_launch, ex_dynamic\<lparr>kernel_cache := [(''123'', ex_prepared)]\<rparr>,
      [DebugNotInCacheCompiling ''123'' [],
       Compile [] ((ex_kwargs (PyInt 12) (PyInt 3))(''warmup'' \<mapsto> Val (PyBool True))),
       LoadBinary ''kernel'' 0, DebugCompilationTook])"
proof -
  have p: "get_prepared_kernel ex_dynamic ex_driver [] (ex_kwargs (PyInt 12) (PyInt 3)) =
     (Inr ex_prepared,
      [Compile [] ((ex_kwargs (PyInt 12) (PyInt 3))(''warmup'' \<mapsto> Val (PyBool True))),
       LoadBinary ''kernel'' 0, DebugCompilationTook])"
    by (rule ex_prepare) (simp_all add: ex_dynamic_simps str_int_12 str_int_3)
  have k: "get_key ex_prepared = ''123''"
    by (simp add: get_key_def ex_prepared_def)
  show ?thesis
    by (simp add: run_dynamic_def p ex_key str_int_12 str_int_3 lookup_variant_def
        ex_dynamic_simps dict_get_def dict_keys_def k no_pre_hook_def ex_kwargs_simps
        kw_get_def ex_call_prepared)
qed

lemma ex_second_call:
  "run_dynamic (ex_dynamic\<lparr>kernel_cache := [(''123'', ex_prepared)]\<rparr>) ex_driver []
      (ex_kwargs (PyInt 1) (PyInt 23)) =
     (Inr ex_launch, ex_dynamic\<lparr>kernel_cache := [(''123'', ex_prepared)]\<rparr>, [])"
  by (simp add: run_dynamic_def lookup_variant_def cache_index_func_def calc_cache_index_def
      ex_dynamic_simps ex_kwargs_simps kw_get_def str_int_1 str_int_23 dict_get_def
      no_pre_hook_def ex_call_prepared)

lemma ex_types_ok:
  "check_keys self = [''A'', ''B''] \<Longrightarrow>
   check_key_types (check_keys self) (ex_kwargs (PyInt a) (PyInt b)) = Inr ()"
  by (simp add: kw_get_def ex_kwargs_simps)

lemma ex_no_pre_hook: "no_pre_hook (ex_kwargs a b)"
  by (simp add: no_pre_hook_def ex_kwargs_simps)

lemma ex_grid_simps:
  "check_keys ex_dynamic_grid = [''A'', ''B'']"
  "kernel_cache ex_dynamic_grid = []"
  "fn ex_dynamic_grid = ex_fn"
  "jc_cache_launch_grid ex_dynamic_grid = True"
  "dynamic_mode ex_dynamic_grid = True"
  "check_keys ex_static_grid = [''A'', ''B'']"
  "kernel_cache ex_static_grid = []"
  "fn ex_static_grid = ex_fn"
  "jc_cache_launch_grid ex_static_grid = True"
  "dynamic_mode ex_static_grid = False"
  "cache_lock ex_static_grid = Some 0"
  by (simp_all add: ex_dynamic_grid_def ex_static_grid_def JitCache_init_def)

lemma ex_kwargs_x_simps:
  "ex_kwargs_x n ''x'' = Some (Val (PyInt n))"
  "ex_kwargs_x n ''A'' = Some (Val (PyInt 12))"
  "ex_kwargs_x n ''B'' = Some (Val (PyInt 3))"
  "ex_kwargs_x n ''grid'' = Some ex_grid_fn"
  "ex_kwargs_x n ''pre_hook'' = None"
  "ex_kwargs_x n ''warmup'' = None"
  by (simp_all add: ex_kwargs_x_def)

lemma ex_resolve_grid:
  "resolve_grid ((ex_kwargs_x n)(''warmup'' \<mapsto> v)) = Inr (PySeq [] [PyInt (128 * n)])"
  "resolve_grid (ex_kwargs_x n) = Inr (PySeq [] [PyInt (128 * n)])"
  by (simp_all add: resolve_grid_def kw_get_def ex_kwargs_x_simps ex_grid_fn_def vals_of_def)

lemma ex_key_x:
  "check_keys self = [''A'', ''B''] \<Longrightarrow> cache_index_func self (ex_kwargs_x n) = Inr ''123''"
  by (simp add: cache_index_func_def calc_cache_index_def kw_get_def ex_kwargs_x_simps
      str_int_12 str_int_3)

lemma ex_no_pre_hook_x: "no_pre_hook (ex_kwargs_x n)"
  by (simp add: no_pre_hook_def ex_kwargs_x_simps)

lemma ex_prepare_x:
  assumes "fn self = ex_fn" "check_keys self = [''A'', ''B'']" "jc_cache_launch_grid self"
  shows "get_prepared_kernel self ex_driver [] (ex_kwargs_x n) =
     (Inr (ex_prepared_static\<lparr>concrete_grid := Some (PyInt (128 * n), PyInt 1, PyInt 1)\<rparr>),
      [Compile [] ((ex_kwargs_x n)(''warmup'' \<mapsto> Val (PyBool True))),
       LoadBinary ''kernel'' 0, DebugCompilationTook])"
  using assms
  by (simp add: get_prepared_kernel_def ex_fn_def ex_kernel_def ex_driver_def ex_kwargs_x_simps
      ex_grid_fn_def ex_prepared_static_def ex_prepared_def kw_get_def cache_index_func_def
      calc_cache_index_def PreparedKernel_init_def init_handles_def grid_dims_def vals_of_def
      str_int_12 str_int_3 Let_def)

lemma ex_call_prepared_x:
  "PreparedKernel_call (ex_prepared_static\<lparr>concrete_grid := Some d\<rparr>) [] (ex_kwargs_x m) =
     Inr (ex_launch\<lparr>l_grid := d, l_non_constsexpr_vals := [Val (PyInt m)]\<rparr>)"
  by (simp add: PreparedKernel_call_def ex_prepared_static_def ex_prepared_def kw_get_def
      ex_kwargs_x_simps ex_launch_def ex_kernel_def)

lemma ex_prepared_static_128:
  "ex_prepared_static\<lparr>concrete_grid := Some (PyInt 128, PyInt 1, PyInt 1)\<rparr> = ex_prepared_static"
  by (simp add: ex_prepared_static_def)

section \<open>The claims\<close>

subsection \<open>C1: dynamic mode compiles once per key\<close>

text \<open>
  C1, as stated, counts compilations per combination of selector values. The cache is
  indexed by the derived key, and two combinations can derive one key: after the call with
  A = 12 and B = 3, the call with A = 1 and B = 23 is the first with its combination, and
  it compiles nothing and adds nothing to the cache.
\<close>

theorem dynamic_unseen_combination_not_compiled:
  "map (ex_kwargs (PyInt 1) (PyInt 23)) (check_keys ex_dynamic)
     \<noteq> map (ex_kwargs (PyInt 12) (PyInt 3)) (check_keys ex_dynamic)
   \<and> fst (snd (run ex_dynamic ex_unlocked ex_driver [] (ex_kwargs (PyInt 12) (PyInt 3)))) =
       ex_dynamic\<lparr>kernel_cache := [(''123'', ex_prepared)]\<rparr>
   \<and> count_compiles (snd (snd (run (ex_dynamic\<lparr>kernel_cache := [(''123'', ex_prepared)]\<rparr>)
         ex_unlocked ex_driver [] (ex_kwargs (PyInt 1) (PyInt 23))))) = 0
   \<and> fst (snd (run (ex_dynamic\<lparr>kernel_cache := [(''123'', ex_prepared)]\<rparr>)
         ex_unlocked ex_driver [] (ex_kwargs (PyInt 1) (PyInt 23)))) =
       ex_dynamic\<lparr>kernel_cache := [(''123'', ex_prepared)]\<rparr>"
  by (simp add: run_def ex_dynamic_simps ex_first_call ex_second_call ex_kwargs_simps
      count_compiles_simps)

text \<open>
  C1, amended. In dynamic mode, take a call whose derived key is not in the cache, whose
  selector values pass the type check and for which \<^verbatim>\<open>_get_prepared_kernel\<close> returns a
  variant (\<^verbatim>\<open>warmup\<close>, the keyword that \<^verbatim>\<open>_get_prepared_kernel\<close> sets itself, is not a
  selector key). The call causes exactly one compilation, stores the variant under the
  derived key, which is the key the variant carries, and returns the call of that variant.
  After it and after any further calls on the cache, every call with the same selector
  values causes no event at all, leaves the cache as it is and returns the call of that same
  variant.
\<close>

theorem dynamic_compiles_once_per_key:
  assumes dyn: "dynamic_mode self"
    and warm: "''warmup'' \<notin> set (check_keys self)"
    and pre: "no_pre_hook kw"
    and key: "cache_index_func self kw = Inr key"
    and miss: "map_of (kernel_cache self) key = None"
    and types: "check_key_types (check_keys self) kw = Inr ()"
    and prep: "get_prepared_kernel self drv [] kw = (Inr pk, evs)"
  shows "run self locks drv [] kw =
           (PreparedKernel_call pk [] kw,
            self\<lparr>kernel_cache := dict_set key pk (kernel_cache self)\<rparr>,
            DebugNotInCacheCompiling key (dict_keys (kernel_cache self)) # evs)
         \<and> count_compiles (DebugNotInCacheCompiling key (dict_keys (kernel_cache self)) # evs) = 1
         \<and> get_key pk = key
         \<and> (\<forall>calls locks2 drv2 kw2.
               no_pre_hook kw2 \<and> map kw2 (check_keys self) = map kw (check_keys self) \<longrightarrow>
               run (after_calls (self\<lparr>kernel_cache := dict_set key pk (kernel_cache self)\<rparr>) calls)
                   locks2 drv2 [] kw2 =
                 (PreparedKernel_call pk [] kw2,
                  after_calls (self\<lparr>kernel_cache := dict_set key pk (kernel_cache self)\<rparr>) calls,
                  []))"
proof -
  let ?self1 = "self\<lparr>kernel_cache := dict_set key pk (kernel_cache self)\<rparr>"
  have k: "get_key pk = key"
    using get_prepared_kernel_key [OF prep] key warm by (simp add: cache_index_func_warmup)
  have first: "run self locks drv [] kw =
           (PreparedKernel_call pk [] kw, ?self1,
            DebugNotInCacheCompiling key (dict_keys (kernel_cache self)) # evs)"
    using dyn pre key miss types prep k
    by (simp add: run_def run_dynamic_def lookup_variant_def dict_get_def)
  have once: "count_compiles (DebugNotInCacheCompiling key (dict_keys (kernel_cache self)) # evs) = 1"
    using get_prepared_kernel_compiles_once [OF prep] by (simp add: count_compiles_simps)
  have later: "run (after_calls ?self1 calls) locks2 drv2 [] kw2 =
                 (PreparedKernel_call pk [] kw2, after_calls ?self1 calls, [])"
    if "no_pre_hook kw2 \<and> map kw2 (check_keys self) = map kw (check_keys self)"
    for calls locks2 drv2 kw2
  proof -
    have "map_of (kernel_cache ?self1) key = Some pk" by (simp add: map_of_dict_set)
    with after_calls_dynamic_keeps_entry [of ?self1 key pk calls] dyn warm
    obtain c where c: "after_calls ?self1 calls = self\<lparr>kernel_cache := c\<rparr>" "map_of c key = Some pk"
      by auto
    from that key have "cache_index_func self kw2 = Inr key"
      using cache_index_func_cong [of kw2 self kw] by simp
    with c that dyn show ?thesis
      by (simp add: run_def run_dynamic_def lookup_variant_kernel_cache dict_get_def)
  qed
  from first once k later show ?thesis by blast
qed

theorem dynamic_compiles_once_per_key_witness:
  "run ex_dynamic ex_unlocked ex_driver [] (ex_kwargs (PyInt 12) (PyInt 3)) =
     (Inr ex_launch, ex_dynamic\<lparr>kernel_cache := [(''123'', ex_prepared)]\<rparr>,
      [DebugNotInCacheCompiling ''123'' [],
       Compile [] ((ex_kwargs (PyInt 12) (PyInt 3))(''warmup'' \<mapsto> Val (PyBool True))),
       LoadBinary ''kernel'' 0, DebugCompilationTook])
   \<and> run (after_calls (ex_dynamic\<lparr>kernel_cache := [(''123'', ex_prepared)]\<rparr>)
              [(ex_unlocked, ex_driver, [], ex_kwargs (PyInt 7) (PyInt 8))])
          ex_unlocked ex_driver [] ((ex_kwargs (PyInt 12) (PyInt 3))(''x'' \<mapsto> Val (PyInt 9))) =
       (PreparedKernel_call ex_prepared [] ((ex_kwargs (PyInt 12) (PyInt 3))(''x'' \<mapsto> Val (PyInt 9))),
        after_calls (ex_dynamic\<lparr>kernel_cache := [(''123'', ex_prepared)]\<rparr>)
              [(ex_unlocked, ex_driver, [], ex_kwargs (PyInt 7) (PyInt 8))],
        [])"
proof -
  let ?kw = "ex_kwargs (PyInt 12) (PyInt 3)"
  let ?kw2 = "?kw(''x'' \<mapsto> Val (PyInt 9))"
  have s: "str_int 12 @ str_int 3 = ''123''" by (simp add: str_int_12 str_int_3)
  have 1: "dynamic_mode ex_dynamic" by (simp add: ex_dynamic_simps)
  have 2: "''warmup'' \<notin> set (check_keys ex_dynamic)" by (simp add: ex_dynamic_simps)
  have 3: "no_pre_hook ?kw" by (rule ex_no_pre_hook)
  have 4: "cache_index_func ex_dynamic ?kw = Inr ''123''" by (simp add: ex_key s)
  have 5: "map_of (kernel_cache ex_dynamic) ''123'' = None" by (simp add: ex_dynamic_simps)
  have 6: "check_key_types (check_keys ex_dynamic) ?kw = Inr ()"
    by (rule ex_types_ok) (simp add: ex_dynamic_simps)
  have 7: "get_prepared_kernel ex_dynamic ex_driver [] ?kw =
     (Inr ex_prepared,
      [Compile [] (?kw(''warmup'' \<mapsto> Val (PyBool True))),
       LoadBinary ''kernel'' 0, DebugCompilationTook])"
    by (rule ex_prepare) (simp_all add: ex_dynamic_simps s)
  have 8: "no_pre_hook ?kw2 \<and> map ?kw2 (check_keys ex_dynamic) = map ?kw (check_keys ex_dynamic)"
    by (simp add: no_pre_hook_def ex_kwargs_simps ex_dynamic_simps)
  have 9: "dict_set ''123'' ex_prepared (kernel_cache ex_dynamic) = [(''123'', ex_prepared)]"
    "dict_keys (kernel_cache ex_dynamic) = []"
    "PreparedKernel_call ex_prepared [] ?kw = Inr ex_launch"
    by (simp_all add: ex_dynamic_simps dict_keys_def ex_call_prepared)
  from dynamic_compiles_once_per_key [where self = ex_dynamic and kw = ?kw and locks = ex_unlocked,
      OF 1 2 3 4 5 6 7] 8
  show ?thesis
    unfolding 9 by blast
qed

subsection \<open>C2: static mode, locked\<close>

text \<open>
  C2. While the lock is locked, a call in static mode compiles nothing and returns the
  cache as it was. When the derived key is not in the cache the call raises
  \<^verbatim>\<open>KeyError\<close> for that key, after printing the key and the list of all cached keys;
  when it is there the call is the call of the cached variant.
\<close>

theorem static_locked_is_pure_lookup:
  assumes lk: "cache_lock self = Some r" "is_locked (locks r)"
  shows "\<exists>res evs. run_static self locks drv args kw = (res, self, evs)
           \<and> count_compiles evs = 0
           \<and> (args = [] \<and> no_pre_hook kw \<and> cache_index_func self kw = Inr key
                \<and> map_of (kernel_cache self) key = None \<longrightarrow>
              res = Inl (KeyError key)
              \<and> evs = [PrintNotInCache key (dict_keys (kernel_cache self)),
                       PrintException (KeyError key)])
           \<and> (args = [] \<and> no_pre_hook kw \<and> cache_index_func self kw = Inr key
                \<and> map_of (kernel_cache self) key = Some pk \<longrightarrow>
              res = PreparedKernel_call pk [] kw \<and> evs = [])"
  using lk
  by (auto simp: run_static_def lookup_variant_def dict_get_def count_compiles_simps
      split: sum.splits option.splits)

theorem static_locked_is_pure_lookup_witness:
  "run_static (ex_static\<lparr>kernel_cache := [(''123'', ex_prepared)]\<rparr>) ex_locked ex_driver []
      (ex_kwargs (PyInt 3) (PyInt 4)) =
     (Inl (KeyError ''34''), ex_static\<lparr>kernel_cache := [(''123'', ex_prepared)]\<rparr>,
      [PrintNotInCache ''34'' [''123''], PrintException (KeyError ''34'')])
   \<and> run_static (ex_static\<lparr>kernel_cache := [(''123'', ex_prepared)]\<rparr>) ex_locked ex_driver []
      (ex_kwargs (PyInt 12) (PyInt 3)) =
     (Inr ex_launch, ex_static\<lparr>kernel_cache := [(''123'', ex_prepared)]\<rparr>, [])"
proof -
  let ?self = "ex_static\<lparr>kernel_cache := [(''123'', ex_prepared)]\<rparr>"
  let ?kw = "ex_kwargs (PyInt 3) (PyInt 4)"
  let ?kw' = "ex_kwargs (PyInt 12) (PyInt 3)"
  have l1: "cache_lock ?self = Some 0"
    by (simp add: ex_static_simps)
  have l2: "is_locked (ex_locked 0)"
    by (simp add: ex_locked_def lock_def CacheLock_init_def)
  have k: "cache_index_func ?self ?kw = Inr ''34''"
    by code_simp
  have k': "cache_index_func ?self ?kw' = Inr ''123''"
    by code_simp
  have m: "map_of (kernel_cache ?self) ''34'' = None"
    by simp
  have m': "map_of (kernel_cache ?self) ''123'' = Some ex_prepared"
    by simp
  have p: "no_pre_hook ?kw" "no_pre_hook ?kw'"
    by (rule ex_no_pre_hook)+
  from static_locked_is_pure_lookup [where self = ?self and locks = ex_locked and r = 0
      and drv = ex_driver and args = "[]" and kw = ?kw and key = "''34''" and pk = ex_prepared]
    l1 l2 k m p
  have miss: "run_static ?self ex_locked ex_driver [] ?kw =
     (Inl (KeyError ''34''), ?self, [PrintNotInCache ''34'' [''123''], PrintException (KeyError ''34'')])"
    by (auto simp: dict_keys_def)
  from static_locked_is_pure_lookup [where self = ?self and locks = ex_locked and r = 0
      and drv = ex_driver and args = "[]" and kw = ?kw' and key = "''123''" and pk = ex_prepared]
    l1 l2 k' m' p
  have hit: "run_static ?self ex_locked ex_driver [] ?kw' = (Inr ex_launch, ?self, [])"
    by (auto simp: ex_call_prepared)
  from miss hit show ?thesis
    by simp
qed

subsection \<open>C3: the derived key\<close>

text \<open>
  C3. Whenever the selector keys have the values \<open>vs\<close>, in the order of the selector keys,
  the key that \<^verbatim>\<open>cache_index_func\<close> derives is the concatenation of their string
  representations (and the fixed key \<^verbatim>\<open>_default_\<close> when there are no selector keys); two
  calls that agree on every selector key get the same key; with no selector keys every
  call gets \<^verbatim>\<open>_default_\<close>, whatever its arguments.
\<close>

theorem cache_key_is_concatenation:
  "(map kw (check_keys self) = map Some vs \<longrightarrow>
      cache_index_func self kw = Inr (cache_key_of_values vs))
   \<and> (map kw1 (check_keys self) = map kw2 (check_keys self) \<longrightarrow>
      cache_index_func self kw1 = cache_index_func self kw2)
   \<and> (check_keys self = [] \<longrightarrow> cache_index_func self kw3 = Inr ''_default_'')"
proof (intro conjI impI)
  assume vs: "map kw (check_keys self) = map Some vs"
  show "cache_index_func self kw = Inr (cache_key_of_values vs)"
  proof (cases "check_keys self = []")
    case True
    with vs show ?thesis by (simp add: cache_index_func_def cache_key_of_values_def)
  next
    case False
    with vs have "vs \<noteq> []" by auto
    with False calc_cache_index_loop_values [OF vs, of "[]"] show ?thesis
      by (simp add: cache_index_func_def calc_cache_index_def cache_key_of_values_def)
  qed
next
  assume "map kw1 (check_keys self) = map kw2 (check_keys self)"
  then show "cache_index_func self kw1 = cache_index_func self kw2"
    by (rule cache_index_func_cong)
next
  assume "check_keys self = []"
  then show "cache_index_func self kw3 = Inr ''_default_''"
    by (simp add: cache_index_func_def)
qed

theorem cache_key_is_concatenation_witness:
  "cache_index_func ex_dynamic (ex_kwargs (PyInt 12) (PyBool True)) = Inr ''12True''
   \<and> cache_index_func ex_dynamic ((ex_kwargs (PyInt 12) (PyBool True))(''x'' \<mapsto> Val (PyInt 6))) =
       cache_index_func ex_dynamic (ex_kwargs (PyInt 12) (PyBool True))
   \<and> cache_index_func ex_no_keys (ex_kwargs (PyInt 12) (PyBool True)) = Inr ''_default_''"
  using cache_key_is_concatenation [of "ex_kwargs (PyInt 12) (PyBool True)" ex_dynamic
      "[Val (PyInt 12), Val (PyBool True)]"
      "(ex_kwargs (PyInt 12) (PyBool True))(''x'' \<mapsto> Val (PyInt 6))"
      "ex_kwargs (PyInt 12) (PyBool True)"]
    cache_key_is_concatenation [of Map.empty ex_no_keys "[]" Map.empty Map.empty
      "ex_kwargs (PyInt 12) (PyBool True)"]
  by (simp add: ex_dynamic_simps ex_kwargs_simps cache_key_of_values_def str_int_12 ex_no_keys_def
      JitCache_init_def)

subsection \<open>C4: selector values of another type\<close>

text \<open>
  C4, as stated, has every call with a selector value that is not an \<^verbatim>\<open>int\<close>, a
  \<^verbatim>\<open>bool\<close> or a \<^verbatim>\<open>float\<close> fail. The types are checked only on the way to a
  compilation: in dynamic mode a call whose key is cached is answered without the check.
  After the call with A = 12 and B = 3, the call with the string \<^verbatim>\<open>"12"\<close> for A derives
  the same key 123 and launches.
\<close>

theorem string_selector_is_served_from_cache:
  "\<not> type_in_int_bool_float (Val (PyStr ''12''))
   \<and> ex_kwargs (PyStr ''12'') (PyInt 3) ''A'' = Some (Val (PyStr ''12''))
   \<and> fst (snd (run ex_dynamic ex_unlocked ex_driver [] (ex_kwargs (PyInt 12) (PyInt 3)))) =
       ex_dynamic\<lparr>kernel_cache := [(''123'', ex_prepared)]\<rparr>
   \<and> run (ex_dynamic\<lparr>kernel_cache := [(''123'', ex_prepared)]\<rparr>) ex_unlocked ex_driver []
         (ex_kwargs (PyStr ''12'') (PyInt 3)) =
       (Inr ex_launch, ex_dynamic\<lparr>kernel_cache := [(''123'', ex_prepared)]\<rparr>, [])"
proof -
  have first: "fst (snd (run ex_dynamic ex_unlocked ex_driver [] (ex_kwargs (PyInt 12) (PyInt 3)))) =
       ex_dynamic\<lparr>kernel_cache := [(''123'', ex_prepared)]\<rparr>"
    by (simp add: run_def ex_dynamic_simps ex_first_call)
  have second: "run (ex_dynamic\<lparr>kernel_cache := [(''123'', ex_prepared)]\<rparr>) ex_unlocked ex_driver []
         (ex_kwargs (PyStr ''12'') (PyInt 3)) =
       (Inr ex_launch, ex_dynamic\<lparr>kernel_cache := [(''123'', ex_prepared)]\<rparr>, [])"
    by (simp add: run_def ex_dynamic_simps ex_kwargs_simps run_dynamic_def
        lookup_variant_def cache_index_func_def calc_cache_index_def kw_get_def str_int_3
        dict_get_def no_pre_hook_def ex_call_prepared)
  from first second show ?thesis by (simp add: ex_kwargs_simps)
qed

text \<open>
  C4, amended. A call in which some selector value is not an \<^verbatim>\<open>int\<close>, a \<^verbatim>\<open>bool\<close> or a
  \<^verbatim>\<open>float\<close> never compiles and leaves the cache unchanged, in either mode. It fails
  whenever it is on the way to a compilation: in static mode while the lock is unlocked,
  and in dynamic mode when the lookup of its key fails.
\<close>

theorem bad_selector_type_never_compiles:
  assumes bad: "k \<in> set (check_keys self)" "kw k = Some v" "\<not> type_in_int_bool_float v"
  shows "\<exists>res evs. run self locks drv args kw = (res, self, evs)
           \<and> count_compiles evs = 0
           \<and> (\<not> dynamic_mode self \<and> cache_lock self = Some r \<and> \<not> is_locked (locks r) \<longrightarrow>
                (\<exists>e. res = Inl e))
           \<and> (dynamic_mode self \<and> (\<forall>pk. lookup_variant self kw \<noteq> Inr pk) \<longrightarrow>
                (\<exists>e. res = Inl e))"
proof -
  obtain e where e: "check_key_types (check_keys self) kw = Inl e"
    using check_key_types_bad [where ks = "check_keys self" and kw = kw and k = k and v = v] bad
    by blast
  show ?thesis
  proof (cases "dynamic_mode self")
    case True
    with e show ?thesis
      by (auto simp: run_def run_dynamic_def count_compiles_simps split: sum.splits)
  next
    case False
    with e show ?thesis
      by (auto simp: run_def run_static_def lookup_variant_def count_compiles_simps
          split: sum.splits option.splits)
  qed
qed

theorem bad_selector_type_never_compiles_witness:
  "run ex_static ex_unlocked ex_driver [] (ex_kwargs (PyStr ''12'') (PyInt 3)) =
     (Inl AssertionError, ex_static, [])
   \<and> run ex_dynamic ex_unlocked ex_driver [] (ex_kwargs (PyStr ''12'') (PyInt 3)) =
     (Inl AssertionError, ex_dynamic, [DebugNotInCacheCompiling ''123'' []])"
proof -
  let ?kw = "ex_kwargs (PyStr ''12'') (PyInt 3)"
  have 1: "''A'' \<in> set (check_keys ex_static)" "''A'' \<in> set (check_keys ex_dynamic)"
    by (simp_all add: ex_static_simps ex_dynamic_simps)
  have 2: "?kw ''A'' = Some (Val (PyStr ''12''))" by (simp add: ex_kwargs_simps)
  have 3: "\<not> type_in_int_bool_float (Val (PyStr ''12''))" by simp
  have 4: "\<not> dynamic_mode ex_static \<and> cache_lock ex_static = Some 0 \<and> \<not> is_locked (ex_unlocked 0)"
    by (simp add: ex_static_simps ex_unlocked_def CacheLock_init_def)
  have 5: "dynamic_mode ex_dynamic \<and> (\<forall>pk. lookup_variant ex_dynamic ?kw \<noteq> Inr pk)"
    by (simp add: ex_dynamic_simps lookup_variant_def cache_index_func_def calc_cache_index_def
        kw_get_def ex_kwargs_simps dict_get_def)
  have s: "run ex_static ex_unlocked ex_driver [] ?kw = (Inl AssertionError, ex_static, [])"
    using bad_selector_type_never_compiles [where self = ex_static and kw = ?kw and k = "''A''"
        and locks = ex_unlocked and drv = ex_driver and args = "[]" and r = 0, OF 1(1) 2 3] 4
    by (simp add: run_def run_static_def ex_no_pre_hook ex_static_simps ex_unlocked_def
        CacheLock_init_def kw_get_def ex_kwargs_simps)
  have d: "run ex_dynamic ex_unlocked ex_driver [] ?kw =
      (Inl AssertionError, ex_dynamic, [DebugNotInCacheCompiling ''123'' []])"
    using bad_selector_type_never_compiles [where self = ex_dynamic and kw = ?kw and k = "''A''"
        and locks = ex_unlocked and drv = ex_driver and args = "[]" and r = 0, OF 1(2) 2 3] 5
    by (simp add: run_def run_dynamic_def ex_no_pre_hook ex_dynamic_simps lookup_variant_def
        cache_index_func_def calc_cache_index_def kw_get_def ex_kwargs_simps dict_get_def
        dict_keys_def str_int_3)
  from s d show ?thesis by simp
qed

subsection \<open>C5: a selector key that is a runtime parameter\<close>

text \<open>
  C5. When a selector key is the name of a parameter that is neither \<^verbatim>\<open>constexpr\<close> nor
  \<^verbatim>\<open>const\<close>, \<^verbatim>\<open>_get_prepared_kernel\<close> never returns a variant: once the compiler has
  returned, it raises the \<^verbatim>\<open>RuntimeError\<close> about \<^verbatim>\<open>check_keys\<close> (and when the compiler
  raises, that exception). A cache constructed with such keys never launches: whatever
  calls are made on it, in either mode and whatever the lock, each of them fails.
\<close>

theorem selector_key_must_be_constant:
  assumes bad: "p \<in> set (params (fn self))" "\<not> is_constexpr p" "\<not> is_const p"
      "name p \<in> set (check_keys self)"
  shows "(\<forall>kernel'. fn_run (fn self) args (kw(''warmup'' \<mapsto> Val (PyBool True))) = Inr kernel' \<longrightarrow>
            fst (get_prepared_kernel self drv args kw) = Inl (RuntimeError check_keys_error))
         \<and> (\<exists>e. fst (get_prepared_kernel self drv args kw) = Inl e)
         \<and> (kernel_cache self = [] \<longrightarrow>
              (\<forall>calls locks' drv' args' kw'.
                 \<exists>e. fst (run (after_calls self calls) locks' drv' args' kw') = Inl e))"
proof (intro conjI allI impI)
  note g = get_prepared_kernel_bad_config [OF bad]
  show "fst (get_prepared_kernel self drv args kw) = Inl (RuntimeError check_keys_error)"
    if "fn_run (fn self) args (kw(''warmup'' \<mapsto> Val (PyBool True))) = Inr kernel'" for kernel'
    using that by (simp add: g)
  show "\<exists>e. fst (get_prepared_kernel self drv args kw) = Inl e"
    by (simp add: g split: sum.splits)
  show "\<exists>e. fst (run (after_calls self calls) locks' drv' args' kw') = Inl e"
    if "kernel_cache self = []" for calls locks' drv' args' kw'
    using run_bad_config [OF bad that, of locks' drv' args' kw']
      after_calls_bad_config [OF bad that, of calls]
    by auto
qed

theorem selector_key_must_be_constant_witness:
  "fst (get_prepared_kernel ex_bad ex_driver [] (ex_kwargs (PyInt 12) (PyInt 3))) =
     Inl (RuntimeError check_keys_error)
   \<and> (\<exists>e. fst (run (after_calls ex_bad [(ex_unlocked, ex_driver, [], ex_kwargs (PyInt 1) (PyInt 2))])
                 ex_unlocked ex_driver [] (ex_kwargs (PyInt 12) (PyInt 3))) = Inl e)"
proof -
  let ?p = "\<lparr>name = ''x'', is_constexpr = False, is_const = False\<rparr>"
  have 1: "?p \<in> set (params (fn ex_bad))" by (simp add: ex_bad_simps ex_fn_def)
  have 2: "\<not> is_constexpr ?p" "\<not> is_const ?p" by simp_all
  have 3: "name ?p \<in> set (check_keys ex_bad)" by (simp add: ex_bad_simps)
  have 4: "fn_run (fn ex_bad) [] ((ex_kwargs (PyInt 12) (PyInt 3))(''warmup'' \<mapsto> Val (PyBool True)))
             = Inr ex_kernel"
    by (simp add: ex_bad_simps ex_fn_def)
  have 5: "kernel_cache ex_bad = []" by (simp add: ex_bad_simps)
  from selector_key_must_be_constant [where self = ex_bad and p = ?p and args = "[]"
      and kw = "ex_kwargs (PyInt 12) (PyInt 3)" and drv = ex_driver, OF 1 2 3] 4 5
  show ?thesis by blast
qed

subsection \<open>C6: more shared memory than the device has\<close>

text \<open>
  C6. The kernel of the example needs 1024 bytes of shared memory and the small device has
  512. Preparing the kernel there loads no binary, and the exception that leaves
  \<^verbatim>\<open>_init_handles\<close> is the \<^verbatim>\<open>AttributeError\<close> for \<^verbatim>\<open>self.metadata\<close>, not
  \<^verbatim>\<open>OutOfResources(1024, 512, "shared memory")\<close>.
\<close>

theorem out_of_resources_is_attribute_error:
  "k_metadata_shared ex_kernel = 1024 \<and> max_shared_mem ex_small_driver 0 = 512
   \<and> get_prepared_kernel ex_dynamic ex_small_driver [] (ex_kwargs (PyInt 12) (PyInt 3)) =
       (Inl (AttributeError ''metadata''),
        [Compile [] ((ex_kwargs (PyInt 12) (PyInt 3))(''warmup'' \<mapsto> Val (PyBool True)))])
   \<and> fst (get_prepared_kernel ex_dynamic ex_small_driver [] (ex_kwargs (PyInt 12) (PyInt 3)))
       \<noteq> Inl (OutOfResources 1024 512 ''shared memory'')"
  by (simp add: get_prepared_kernel_def ex_fn_def ex_kernel_def ex_dynamic_simps
      ex_driver_def ex_small_driver_def ex_kwargs_simps ex_grid_def kw_get_def cache_index_func_def
      calc_cache_index_def PreparedKernel_init_def init_handles_def Let_def)

subsection \<open>C7: static mode, unlocked, key already cached\<close>

text \<open>
  C7. In static mode with the lock unlocked, take a call that passes the type check, for
  which \<^verbatim>\<open>_get_prepared_kernel\<close> returns a variant and whose derived key is in the cache
  already (\<^verbatim>\<open>warmup\<close>, the keyword that \<^verbatim>\<open>_get_prepared_kernel\<close> sets itself, is not a
  selector key). The call logs the warning after the events of the preparation, replaces
  the entry of that key by the new variant, keeping the list of keys, and returns the call
  of the new variant.
\<close>

theorem static_unlocked_overwrites:
  assumes lk: "cache_lock self = Some r" "\<not> is_locked (locks r)"
    and pre: "no_pre_hook kw"
    and types: "check_key_types (check_keys self) kw = Inr ()"
    and prep: "get_prepared_kernel self drv [] kw = (Inr pk, evs)"
    and key: "cache_index_func self kw = Inr key"
    and old: "map_of (kernel_cache self) key = Some old"
    and warm: "''warmup'' \<notin> set (check_keys self)"
  shows "run_static self locks drv [] kw =
           (PreparedKernel_call pk [] kw,
            self\<lparr>kernel_cache := dict_set key pk (kernel_cache self)\<rparr>,
            evs @ [DebugAlreadyCached])
         \<and> get_key pk = key
         \<and> map_of (dict_set key pk (kernel_cache self)) key = Some pk
         \<and> dict_keys (dict_set key pk (kernel_cache self)) = dict_keys (kernel_cache self)"
proof -
  have k: "get_key pk = key"
    using get_prepared_kernel_key [OF prep] key warm by (simp add: cache_index_func_warmup)
  have ci: "cache_index_func (self\<lparr>kernel_cache := c\<rparr>) kw = Inr key" for c
    using key by (simp add: cache_index_func_kernel_cache)
  have "run_static self locks drv [] kw =
           (PreparedKernel_call pk [] kw,
            self\<lparr>kernel_cache := dict_set key pk (kernel_cache self)\<rparr>,
            evs @ [DebugAlreadyCached])"
    using lk pre types prep old k
    by (simp add: run_static_def lookup_variant_def ci dict_get_def map_of_dict_set)
  with k old show ?thesis
    by (simp add: map_of_dict_set dict_keys_dict_set_present)
qed

theorem static_unlocked_overwrites_witness:
  "run_static (ex_static\<lparr>kernel_cache := [(''123'', ex_prepared\<lparr>n_regs := 64\<rparr>)]\<rparr>) ex_unlocked
      ex_driver [] (ex_kwargs (PyInt 12) (PyInt 3)) =
     (Inr ex_launch, ex_static\<lparr>kernel_cache := [(''123'', ex_prepared)]\<rparr>,
      [Compile [] ((ex_kwargs (PyInt 12) (PyInt 3))(''warmup'' \<mapsto> Val (PyBool True))),
       LoadBinary ''kernel'' 0, DebugCompilationTook, DebugAlreadyCached])"
proof -
  let ?self = "ex_static\<lparr>kernel_cache := [(''123'', ex_prepared\<lparr>n_regs := 64\<rparr>)]\<rparr>"
  let ?kw = "ex_kwargs (PyInt 12) (PyInt 3)"
  have s: "str_int 12 @ str_int 3 = ''123''" by (simp add: str_int_12 str_int_3)
  have 1: "cache_lock ?self = Some 0" by (simp add: ex_static_simps)
  have 2: "\<not> is_locked (ex_unlocked 0)" by (simp add: ex_unlocked_def CacheLock_init_def)
  have 3: "check_key_types (check_keys ?self) ?kw = Inr ()"
    by (rule ex_types_ok) (simp add: ex_static_simps)
  have 4: "get_prepared_kernel ?self ex_driver [] ?kw =
     (Inr ex_prepared,
      [Compile [] (?kw(''warmup'' \<mapsto> Val (PyBool True))),
       LoadBinary ''kernel'' 0, DebugCompilationTook])"
    by (rule ex_prepare) (simp_all add: ex_static_simps s)
  have 5: "cache_index_func ?self ?kw = Inr ''123''"
    by (simp add: cache_index_func_def calc_cache_index_def kw_get_def ex_static_simps
        ex_kwargs_simps s)
  have 6: "map_of (kernel_cache ?self) ''123'' = Some (ex_prepared\<lparr>n_regs := 64\<rparr>)" by simp
  have 7: "''warmup'' \<notin> set (check_keys ?self)" by (simp add: ex_static_simps)
  have 8: "no_pre_hook ?kw" by (rule ex_no_pre_hook)
  from static_unlocked_overwrites [where self = ?self and locks = ex_unlocked and r = 0
      and kw = ?kw, OF 1 2 8 3 4 5 6 7]
  show ?thesis by (simp add: ex_call_prepared)
qed

subsection \<open>C8: the memoized grid\<close>

text \<open>
  C8, as stated, has every invoke after the construction use the grid memoized then, and
  has that grid be concrete integers. In static mode while the lock is unlocked every call
  prepares a new variant, and so resolves the grid again: with a grid function of the
  argument \<^verbatim>\<open>x\<close>, the call with x = 1 launches with 128 and the next call, with x = 2,
  compiles again and launches with 256. The items of the grid are stored as they are: a grid
  of a string and a float is memoized as that string, that float and 1.
\<close>

theorem static_unlocked_resolves_grid_again:
  "jc_cache_launch_grid ex_static_grid
   \<and> \<not> is_locked (ex_unlocked 0)
   \<and> run ex_static_grid ex_unlocked ex_driver [] (ex_kwargs_x 1) =
       (Inr (ex_launch\<lparr>l_grid := (PyInt 128, PyInt 1, PyInt 1),
                        l_non_constsexpr_vals := [Val (PyInt 1)]\<rparr>),
        ex_static_grid\<lparr>kernel_cache := [(''123'', ex_prepared_static)]\<rparr>,
        [Compile [] ((ex_kwargs_x 1)(''warmup'' \<mapsto> Val (PyBool True))),
         LoadBinary ''kernel'' 0, DebugCompilationTook])
   \<and> run (ex_static_grid\<lparr>kernel_cache := [(''123'', ex_prepared_static)]\<rparr>) ex_unlocked
         ex_driver [] (ex_kwargs_x 2) =
       (Inr (ex_launch\<lparr>l_grid := (PyInt 256, PyInt 1, PyInt 1),
                        l_non_constsexpr_vals := [Val (PyInt 2)]\<rparr>),
        ex_static_grid\<lparr>kernel_cache :=
          [(''123'', ex_prepared_static\<lparr>concrete_grid := Some (PyInt 256, PyInt 1, PyInt 1)\<rparr>)]\<rparr>,
        [Compile [] ((ex_kwargs_x 2)(''warmup'' \<mapsto> Val (PyBool True))),
         LoadBinary ''kernel'' 0, DebugCompilationTook, DebugAlreadyCached])
   \<and> fst (PreparedKernel_init ex_driver (Val (PySeq [] [PyStr ''a'', PyFloat ''1.5'']))
         (PySeq [] [PyStr ''a'', PyFloat ''1.5'']) True ex_kernel
         ''launch_metadata'' ''enter'' ''exit'' [''x''] ''123'' 0 7) =
       Inr (ex_prepared_static\<lparr>grid_obj := Val (PySeq [] [PyStr ''a'', PyFloat ''1.5'']),
              grid_is_callable := False, grid_size := 2,
              concrete_grid := Some (PyStr ''a'', PyFloat ''1.5'', PyInt 1)\<rparr>)"
proof -
  have u: "\<not> is_locked (ex_unlocked 0)"
    by (simp add: ex_unlocked_def CacheLock_init_def)
  have p: "get_prepared_kernel (ex_static_grid\<lparr>kernel_cache := c\<rparr>) ex_driver [] (ex_kwargs_x n) =
     (Inr (ex_prepared_static\<lparr>concrete_grid := Some (PyInt (128 * n), PyInt 1, PyInt 1)\<rparr>),
      [Compile [] ((ex_kwargs_x n)(''warmup'' \<mapsto> Val (PyBool True))),
       LoadBinary ''kernel'' 0, DebugCompilationTook])" for c n
    by (rule ex_prepare_x) (simp_all add: ex_grid_simps)
  have k: "get_key (ex_prepared_static\<lparr>concrete_grid := d\<rparr>) = ''123''" for d
    by (simp add: get_key_def ex_prepared_static_def ex_prepared_def)
  have run_x: "run (ex_static_grid\<lparr>kernel_cache := c\<rparr>) ex_unlocked ex_driver [] (ex_kwargs_x n) =
       (Inr (ex_launch\<lparr>l_grid := (PyInt (128 * n), PyInt 1, PyInt 1),
                        l_non_constsexpr_vals := [Val (PyInt n)]\<rparr>),
        ex_static_grid\<lparr>kernel_cache := dict_set ''123''
            (ex_prepared_static\<lparr>concrete_grid := Some (PyInt (128 * n), PyInt 1, PyInt 1)\<rparr>) c\<rparr>,
        [Compile [] ((ex_kwargs_x n)(''warmup'' \<mapsto> Val (PyBool True))),
         LoadBinary ''kernel'' 0, DebugCompilationTook]
         @ (if map_of c ''123'' \<noteq> None then [DebugAlreadyCached] else []))" for c n
    using u
    by (simp add: run_def run_static_def ex_grid_simps ex_no_pre_hook_x kw_get_def
        ex_kwargs_x_simps p k lookup_variant_def ex_key_x dict_get_def map_of_dict_set
        ex_call_prepared_x)
  have first: "run ex_static_grid ex_unlocked ex_driver [] (ex_kwargs_x 1) =
       (Inr (ex_launch\<lparr>l_grid := (PyInt 128, PyInt 1, PyInt 1),
                        l_non_constsexpr_vals := [Val (PyInt 1)]\<rparr>),
        ex_static_grid\<lparr>kernel_cache := [(''123'', ex_prepared_static)]\<rparr>,
        [Compile [] ((ex_kwargs_x 1)(''warmup'' \<mapsto> Val (PyBool True))),
         LoadBinary ''kernel'' 0, DebugCompilationTook])"
  proof -
    have "ex_static_grid\<lparr>kernel_cache := []\<rparr> = ex_static_grid"
      by (simp add: ex_static_grid_def JitCache_init_def)
    with run_x [of "[]" 1] show ?thesis
      by (simp add: ex_prepared_static_128)
  qed
  have second: "run (ex_static_grid\<lparr>kernel_cache := [(''123'', ex_prepared_static)]\<rparr>) ex_unlocked
         ex_driver [] (ex_kwargs_x 2) =
       (Inr (ex_launch\<lparr>l_grid := (PyInt 256, PyInt 1, PyInt 1),
                        l_non_constsexpr_vals := [Val (PyInt 2)]\<rparr>),
        ex_static_grid\<lparr>kernel_cache :=
          [(''123'', ex_prepared_static\<lparr>concrete_grid := Some (PyInt 256, PyInt 1, PyInt 1)\<rparr>)]\<rparr>,
        [Compile [] ((ex_kwargs_x 2)(''warmup'' \<mapsto> Val (PyBool True))),
         LoadBinary ''kernel'' 0, DebugCompilationTook, DebugAlreadyCached])"
    using run_x [of "[(''123'', ex_prepared_static)]" 2] by simp
  have third: "fst (PreparedKernel_init ex_driver (Val (PySeq [] [PyStr ''a'', PyFloat ''1.5'']))
         (PySeq [] [PyStr ''a'', PyFloat ''1.5'']) True ex_kernel
         ''launch_metadata'' ''enter'' ''exit'' [''x''] ''123'' 0 7) =
       Inr (ex_prepared_static\<lparr>grid_obj := Val (PySeq [] [PyStr ''a'', PyFloat ''1.5'']),
              grid_is_callable := False, grid_size := 2,
              concrete_grid := Some (PyStr ''a'', PyFloat ''1.5'', PyInt 1)\<rparr>)"
    by (simp add: PreparedKernel_init_def grid_dims_def init_handles_def ex_driver_def
        ex_kernel_def ex_prepared_static_def ex_prepared_def Let_def)
  from u first second third show ?thesis
    by (simp add: ex_grid_simps)
qed

text \<open>
  C8, amended. When the cache was constructed with \<^verbatim>\<open>cache_launch_grid\<close> set and
  \<^verbatim>\<open>_get_prepared_kernel\<close> returns a variant, the variant holds the grid that this
  preparation resolved (the grid object called when it is callable) as three dimensions:
  its first item, and its second and third item where the grid has them, else 1, each as
  it is. Every call of that variant that launches does so with these three dimensions, and
  the grid object of the call has no influence on it. In dynamic mode the call that misses
  is answered by that variant, and so is every later call with the same selector values,
  after any further calls, without an event. In static mode while the lock is unlocked the
  call is answered by that variant, and once the lock is locked every call with the same
  selector values is too; a further call while unlocked prepares a new variant.
\<close>

theorem engine_static_grid_is_memoized:
  assumes flag: "jc_cache_launch_grid self"
    and prep: "get_prepared_kernel self drv [] kw = (Inr pk, evs)"
    and warm: "''warmup'' \<notin> set (check_keys self)"
    and pre: "no_pre_hook kw"
    and types: "check_key_types (check_keys self) kw = Inr ()"
    and key: "cache_index_func self kw = Inr key"
  shows "\<exists>grid n grid_0 grid_1 grid_2.
           resolve_grid (kw(''warmup'' \<mapsto> Val (PyBool True))) = Inr grid
           \<and> py_len grid = Inr n
           \<and> py_getitem grid 0 = Inr grid_0
           \<and> (if n > 1 then py_getitem grid 1 = Inr grid_1 else grid_1 = PyInt 1)
           \<and> (if n > 2 then py_getitem grid 2 = Inr grid_2 else grid_2 = PyInt 1)
           \<and> concrete_grid pk = Some (grid_0, grid_1, grid_2)
           \<and> (\<forall>kw2 l. PreparedKernel_call pk [] kw2 = Inr l \<longrightarrow> l_grid l = (grid_0, grid_1, grid_2))
           \<and> (\<forall>kw2 g'. ''grid'' \<notin> set (non_const_arg_names pk) \<longrightarrow>
                 PreparedKernel_call pk [] (kw2(''grid'' := g')) = PreparedKernel_call pk [] kw2)
           \<and> (dynamic_mode self \<and> map_of (kernel_cache self) key = None \<longrightarrow>
                 fst (run self locks drv [] kw) = PreparedKernel_call pk [] kw
                 \<and> (\<forall>calls locks2 drv2 kw2.
                       no_pre_hook kw2 \<and> map kw2 (check_keys self) = map kw (check_keys self) \<longrightarrow>
                       run (after_calls (fst (snd (run self locks drv [] kw))) calls)
                           locks2 drv2 [] kw2 =
                         (PreparedKernel_call pk [] kw2,
                          after_calls (fst (snd (run self locks drv [] kw))) calls, [])))
           \<and> (\<not> dynamic_mode self \<and> cache_lock self = Some r \<and> \<not> is_locked (locks r) \<longrightarrow>
                 fst (run self locks drv [] kw) = PreparedKernel_call pk [] kw
                 \<and> (\<forall>locks2 drv2 kw2.
                       is_locked (locks2 r) \<and> no_pre_hook kw2
                       \<and> map kw2 (check_keys self) = map kw (check_keys self) \<longrightarrow>
                       run (fst (snd (run self locks drv [] kw))) locks2 drv2 [] kw2 =
                         (PreparedKernel_call pk [] kw2, fst (snd (run self locks drv [] kw)), [])))"
proof -
  from get_prepared_kernel_init [OF prep] flag obtain g grid k lm key' evs' where
    r: "resolve_grid (kw(''warmup'' \<mapsto> Val (PyBool True))) = Inr grid"
    and init: "PreparedKernel_init drv g grid True k lm
                (fn_launch_enter_hook (fn self)) (fn_launch_exit_hook (fn self))
                (snd (classify_params (params (fn self)))) key'
                (get_current_device drv) (get_current_stream drv (get_current_device drv))
              = (Inr pk, evs')"
    by auto
  from PreparedKernel_static_grid [OF init] obtain n grid_0 grid_1 grid_2 where
    g: "py_len grid = Inr n" "py_getitem grid 0 = Inr grid_0"
      "if n > 1 then py_getitem grid 1 = Inr grid_1 else grid_1 = PyInt 1"
      "if n > 2 then py_getitem grid 2 = Inr grid_2 else grid_2 = PyInt 1"
    and c: "concrete_grid pk = Some (grid_0, grid_1, grid_2)" "cache_launch_grid pk"
    by blast
  note m = PreparedKernel_call_memoized [OF c(2) c(1)]
  let ?self1 = "self\<lparr>kernel_cache := dict_set key pk (kernel_cache self)\<rparr>"
  have dyn: "fst (run self locks drv [] kw) = PreparedKernel_call pk [] kw
                 \<and> (\<forall>calls locks2 drv2 kw2.
                       no_pre_hook kw2 \<and> map kw2 (check_keys self) = map kw (check_keys self) \<longrightarrow>
                       run (after_calls (fst (snd (run self locks drv [] kw))) calls)
                           locks2 drv2 [] kw2 =
                         (PreparedKernel_call pk [] kw2,
                          after_calls (fst (snd (run self locks drv [] kw))) calls, []))"
    if d: "dynamic_mode self \<and> map_of (kernel_cache self) key = None"
  proof -
    from d have s: "fst (run self locks drv [] kw) = PreparedKernel_call pk [] kw"
        "fst (snd (run self locks drv [] kw)) = ?self1"
      using run_dynamic_miss_stores [where self = self and kw = kw and drv = drv and pk = pk
          and key = key and locks = locks and evs = evs] pre types prep key warm
      by auto
    from d warm key show ?thesis
      unfolding s by (auto intro: run_dynamic_later_hit)
  qed
  have stat: "fst (run self locks drv [] kw) = PreparedKernel_call pk [] kw
                 \<and> (\<forall>locks2 drv2 kw2.
                       is_locked (locks2 r) \<and> no_pre_hook kw2
                       \<and> map kw2 (check_keys self) = map kw (check_keys self) \<longrightarrow>
                       run (fst (snd (run self locks drv [] kw))) locks2 drv2 [] kw2 =
                         (PreparedKernel_call pk [] kw2, fst (snd (run self locks drv [] kw)), []))"
    if d: "\<not> dynamic_mode self \<and> cache_lock self = Some r \<and> \<not> is_locked (locks r)"
  proof -
    from d have s: "fst (run self locks drv [] kw) = PreparedKernel_call pk [] kw"
        "fst (snd (run self locks drv [] kw)) = ?self1"
      using run_static_unlocked_stores [where self = self and kw = kw and drv = drv and pk = pk
          and key = key and locks = locks and evs = evs and r = r] pre types prep key warm
      by (auto simp: run_def)
    have later: "run ?self1 locks2 drv2 [] kw2 = (PreparedKernel_call pk [] kw2, ?self1, [])"
      if h: "is_locked (locks2 r) \<and> no_pre_hook kw2
             \<and> map kw2 (check_keys self) = map kw (check_keys self)" for locks2 drv2 kw2
    proof -
      from h key have "cache_index_func ?self1 kw2 = Inr key"
        using cache_index_func_cong [of kw2 self kw] by (simp add: cache_index_func_kernel_cache)
      with d h show ?thesis
        using run_static_locked_hit [where self = ?self1 and r = r and locks = locks2
            and kw = kw2 and key = key and pk = pk and drv = drv2]
        by (simp add: run_def map_of_dict_set)
    qed
    from later show ?thesis
      unfolding s by blast
  qed
  from r g c(1) m dyn stat show ?thesis
    by blast
qed

theorem engine_static_grid_is_memoized_witness:
  "resolve_grid ((ex_kwargs_x 1)(''warmup'' \<mapsto> Val (PyBool True))) = Inr (PySeq [] [PyInt 128])
   \<and> concrete_grid ex_prepared_static = Some (PyInt 128, PyInt 1, PyInt 1)
   \<and> resolve_grid (ex_kwargs_x 2) = Inr (PySeq [] [PyInt 256])
   \<and> PreparedKernel_call ex_prepared_static [] ((ex_kwargs_x 2)(''grid'' := None)) =
       PreparedKernel_call ex_prepared_static [] (ex_kwargs_x 2)
   \<and> run (after_calls (fst (snd (run ex_dynamic_grid ex_unlocked ex_driver [] (ex_kwargs_x 1))))
              [(ex_unlocked, ex_driver, [], ex_kwargs (PyInt 7) (PyInt 8))])
          ex_unlocked ex_driver [] (ex_kwargs_x 2) =
       (Inr (ex_launch\<lparr>l_grid := (PyInt 128, PyInt 1, PyInt 1),
                        l_non_constsexpr_vals := [Val (PyInt 2)]\<rparr>),
        after_calls (fst (snd (run ex_dynamic_grid ex_unlocked ex_driver [] (ex_kwargs_x 1))))
              [(ex_unlocked, ex_driver, [], ex_kwargs (PyInt 7) (PyInt 8))],
        [])
   \<and> run (fst (snd (run ex_static_grid ex_unlocked ex_driver [] (ex_kwargs_x 1))))
          ex_locked ex_driver [] (ex_kwargs_x 2) =
       (Inr (ex_launch\<lparr>l_grid := (PyInt 128, PyInt 1, PyInt 1),
                        l_non_constsexpr_vals := [Val (PyInt 2)]\<rparr>),
        fst (snd (run ex_static_grid ex_unlocked ex_driver [] (ex_kwargs_x 1))),
        [])"
proof -
  let ?kw = "ex_kwargs_x 1"
  let ?kw2 = "ex_kwargs_x 2"
  let ?calls = "[(ex_unlocked, ex_driver, [], ex_kwargs (PyInt 7) (PyInt 8))]"
  have prep: "get_prepared_kernel self ex_driver [] ?kw =
     (Inr ex_prepared_static,
      [Compile [] (?kw(''warmup'' \<mapsto> Val (PyBool True))),
       LoadBinary ''kernel'' 0, DebugCompilationTook])"
    if "fn self = ex_fn" "check_keys self = [''A'', ''B'']" "jc_cache_launch_grid self" for self
    using ex_prepare_x [OF that, of 1] by (simp add: ex_prepared_static_128)
  have same: "no_pre_hook ?kw2 \<and> map ?kw2 [''A'', ''B''] = map ?kw [''A'', ''B'']"
    by (simp add: ex_no_pre_hook_x ex_kwargs_x_simps)
  have call2: "PreparedKernel_call ex_prepared_static [] ?kw2 =
      Inr (ex_launch\<lparr>l_grid := (PyInt 128, PyInt 1, PyInt 1),
                       l_non_constsexpr_vals := [Val (PyInt 2)]\<rparr>)"
    using ex_call_prepared_x [of "(PyInt 128, PyInt 1, PyInt 1)" 2]
    by (simp add: ex_prepared_static_128)
  have names: "''grid'' \<notin> set (non_const_arg_names ex_prepared_static)"
    by (simp add: ex_prepared_static_def ex_prepared_def)
  have d: "jc_cache_launch_grid ex_dynamic_grid"
      "get_prepared_kernel ex_dynamic_grid ex_driver [] ?kw =
         (Inr ex_prepared_static,
          [Compile [] (?kw(''warmup'' \<mapsto> Val (PyBool True))),
           LoadBinary ''kernel'' 0, DebugCompilationTook])"
      "''warmup'' \<notin> set (check_keys ex_dynamic_grid)"
      "no_pre_hook ?kw"
      "check_key_types (check_keys ex_dynamic_grid) ?kw = Inr ()"
      "cache_index_func ex_dynamic_grid ?kw = Inr ''123''"
    by (simp_all add: ex_grid_simps prep ex_no_pre_hook_x kw_get_def ex_kwargs_x_simps ex_key_x)
  have dm: "dynamic_mode ex_dynamic_grid \<and> map_of (kernel_cache ex_dynamic_grid) ''123'' = None"
    by (simp add: ex_grid_simps)
  from engine_static_grid_is_memoized [where self = ex_dynamic_grid and kw = ?kw
      and drv = ex_driver and pk = ex_prepared_static and key = "''123''"
      and locks = ex_unlocked and r = 0, OF d]
  obtain grid where
    g: "resolve_grid (?kw(''warmup'' \<mapsto> Val (PyBool True))) = Inr grid"
    and indep: "\<And>kw2 g'. ''grid'' \<notin> set (non_const_arg_names ex_prepared_static) \<Longrightarrow>
          PreparedKernel_call ex_prepared_static [] (kw2(''grid'' := g')) =
          PreparedKernel_call ex_prepared_static [] kw2"
    and later: "dynamic_mode ex_dynamic_grid \<and> map_of (kernel_cache ex_dynamic_grid) ''123'' = None \<Longrightarrow>
         (\<forall>calls locks2 drv2 kw2.
            no_pre_hook kw2 \<and> map kw2 (check_keys ex_dynamic_grid) = map ?kw (check_keys ex_dynamic_grid) \<longrightarrow>
            run (after_calls (fst (snd (run ex_dynamic_grid ex_unlocked ex_driver [] ?kw))) calls)
                locks2 drv2 [] kw2 =
              (PreparedKernel_call ex_prepared_static [] kw2,
               after_calls (fst (snd (run ex_dynamic_grid ex_unlocked ex_driver [] ?kw))) calls, []))"
    by blast
  from g have r1: "resolve_grid (?kw(''warmup'' \<mapsto> Val (PyBool True))) = Inr (PySeq [] [PyInt 128])"
    by (simp add: ex_resolve_grid)
  have r2: "resolve_grid ?kw2 = Inr (PySeq [] [PyInt 256])"
    by (simp add: ex_resolve_grid)
  have c: "concrete_grid ex_prepared_static = Some (PyInt 128, PyInt 1, PyInt 1)"
    by (simp add: ex_prepared_static_def)
  from later [OF dm] same
  have dyn: "run (after_calls (fst (snd (run ex_dynamic_grid ex_unlocked ex_driver [] ?kw))) ?calls)
          ex_unlocked ex_driver [] ?kw2 =
       (PreparedKernel_call ex_prepared_static [] ?kw2,
        after_calls (fst (snd (run ex_dynamic_grid ex_unlocked ex_driver [] ?kw))) ?calls, [])"
    unfolding ex_grid_simps by blast
  have s: "jc_cache_launch_grid ex_static_grid"
      "get_prepared_kernel ex_static_grid ex_driver [] ?kw =
         (Inr ex_prepared_static,
          [Compile [] (?kw(''warmup'' \<mapsto> Val (PyBool True))),
           LoadBinary ''kernel'' 0, DebugCompilationTook])"
      "''warmup'' \<notin> set (check_keys ex_static_grid)"
      "no_pre_hook ?kw"
      "check_key_types (check_keys ex_static_grid) ?kw = Inr ()"
      "cache_index_func ex_static_grid ?kw = Inr ''123''"
    by (simp_all add: ex_grid_simps prep ex_no_pre_hook_x kw_get_def ex_kwargs_x_simps ex_key_x)
  have sm: "\<not> dynamic_mode ex_static_grid \<and> cache_lock ex_static_grid = Some 0
            \<and> \<not> is_locked (ex_unlocked 0)"
    by (simp add: ex_grid_simps ex_unlocked_def CacheLock_init_def)
  have lk: "is_locked (ex_locked 0)"
    by (simp add: ex_locked_def lock_def)
  from engine_static_grid_is_memoized [where self = ex_static_grid and kw = ?kw
      and drv = ex_driver and pk = ex_prepared_static and key = "''123''"
      and locks = ex_unlocked and r = 0, OF s]
  have "\<not> dynamic_mode ex_static_grid \<and> cache_lock ex_static_grid = Some 0
            \<and> \<not> is_locked (ex_unlocked 0) \<longrightarrow>
         (\<forall>locks2 drv2 kw2.
            is_locked (locks2 0) \<and> no_pre_hook kw2
            \<and> map kw2 (check_keys ex_static_grid) = map ?kw (check_keys ex_static_grid) \<longrightarrow>
            run (fst (snd (run ex_static_grid ex_unlocked ex_driver [] ?kw))) locks2 drv2 [] kw2 =
              (PreparedKernel_call ex_prepared_static [] kw2,
               fst (snd (run ex_static_grid ex_unlocked ex_driver [] ?kw)), []))"
    by blast
  with sm lk same
  have stat: "run (fst (snd (run ex_static_grid ex_unlocked ex_driver [] ?kw))) ex_locked ex_driver [] ?kw2 =
       (PreparedKernel_call ex_prepared_static [] ?kw2,
        fst (snd (run ex_static_grid ex_unlocked ex_driver [] ?kw)), [])"
    unfolding ex_grid_simps by blast
  from r1 c r2 indep [OF names, of ?kw2 None] dyn stat show ?thesis
    unfolding call2 by blast
qed

subsection \<open>C9: two combinations, one key\<close>

text \<open>
  C9. The key is not injective in the selector values. With the two selector keys A and B,
  the values (1, 23) and (12, 3) differ and both derive the key \<^verbatim>\<open>123\<close>; after a call
  with (12, 3) has compiled and stored its variant, a call with (1, 23) compiles nothing
  and is answered by calling that stored variant.
\<close>

theorem key_collision:
  "cache_index_func ex_dynamic (ex_kwargs (PyInt 1) (PyInt 23)) = Inr ''123''
   \<and> cache_index_func ex_dynamic (ex_kwargs (PyInt 12) (PyInt 3)) = Inr ''123''
   \<and> map (ex_kwargs (PyInt 1) (PyInt 23)) (check_keys ex_dynamic)
       \<noteq> map (ex_kwargs (PyInt 12) (PyInt 3)) (check_keys ex_dynamic)
   \<and> length (check_keys ex_dynamic) = 2
   \<and> run ex_dynamic ex_unlocked ex_driver [] (ex_kwargs (PyInt 12) (PyInt 3)) =
       (Inr ex_launch, ex_dynamic\<lparr>kernel_cache := [(''123'', ex_prepared)]\<rparr>,
        [DebugNotInCacheCompiling ''123'' [],
         Compile [] ((ex_kwargs (PyInt 12) (PyInt 3))(''warmup'' \<mapsto> Val (PyBool True))),
         LoadBinary ''kernel'' 0, DebugCompilationTook])
   \<and> run (ex_dynamic\<lparr>kernel_cache := [(''123'', ex_prepared)]\<rparr>) ex_unlocked ex_driver []
         (ex_kwargs (PyInt 1) (PyInt 23)) =
       (PreparedKernel_call ex_prepared [] (ex_kwargs (PyInt 1) (PyInt 23)),
        ex_dynamic\<lparr>kernel_cache := [(''123'', ex_prepared)]\<rparr>, [])"
  by (simp add: ex_key str_int_1 str_int_23 str_int_12 str_int_3 ex_dynamic_simps ex_kwargs_simps
      run_def ex_first_call ex_second_call ex_call_prepared)

subsection \<open>C10: a fresh lock\<close>

text \<open>
  C10. A lock is unlocked when it is constructed and stays so as long as \<^verbatim>\<open>lock()\<close> is
  not called on it (and \<^verbatim>\<open>lock()\<close> locks it). A static cache whose lock is in that state
  is warming up: every call that passes the checks on its arguments causes exactly one
  compilation, and when \<^verbatim>\<open>_get_prepared_kernel\<close> returns a variant the call stores it
  under the key it carries.
\<close>

theorem fresh_lock_is_unlocked:
  assumes nolock: "CallLock \<notin> set cs"
    and lk: "cache_lock self = Some r" "locks r = lock_calls cs (CacheLock_init i)"
    and pre: "no_pre_hook kw"
    and types: "check_key_types (check_keys self) kw = Inr ()"
  shows "\<not> is_locked (CacheLock_init i)
         \<and> \<not> is_locked (locks r)
         \<and> is_locked (lock (locks r))
         \<and> count_compiles (snd (snd (run_static self locks drv [] kw))) = 1
         \<and> (\<forall>pk evs. get_prepared_kernel self drv [] kw = (Inr pk, evs) \<longrightarrow>
               kernel_cache (fst (snd (run_static self locks drv [] kw))) =
                 dict_set (get_key pk) pk (kernel_cache self)
               \<and> map_of (kernel_cache (fst (snd (run_static self locks drv [] kw)))) (get_key pk)
                   = Some pk)"
proof -
  have fresh: "\<not> is_locked (CacheLock_init i)"
    by (simp add: CacheLock_init_def)
  with nolock lk have unlocked: "\<not> is_locked (locks r)"
    by (simp add: lock_calls_unlocked)
  have locked: "is_locked (lock (locks r))"
    by (simp add: lock_def)
  obtain res evs where g: "get_prepared_kernel self drv [] kw = (res, evs)"
    by force
  have "count_compiles evs = 1"
    by (rule get_prepared_kernel_compiles_once [OF g])
  with lk unlocked pre types g
  have once: "count_compiles (snd (snd (run_static self locks drv [] kw))) = 1"
    by (auto simp: run_static_def count_compiles_simps split: sum.splits)
  have stored: "kernel_cache (fst (snd (run_static self locks drv [] kw))) =
                 dict_set (get_key pk) pk (kernel_cache self)
               \<and> map_of (kernel_cache (fst (snd (run_static self locks drv [] kw)))) (get_key pk)
                   = Some pk"
    if "get_prepared_kernel self drv [] kw = (Inr pk, evs')" for pk evs'
  proof -
    from lk unlocked pre types that
    have "kernel_cache (fst (snd (run_static self locks drv [] kw))) =
            dict_set (get_key pk) pk (kernel_cache self)"
      by (auto simp: run_static_def split: sum.splits)
    then show ?thesis by (simp add: map_of_dict_set)
  qed
  from fresh unlocked locked once stored show ?thesis by blast
qed

theorem fresh_lock_is_unlocked_witness:
  "\<not> is_locked (CacheLock_init ''global'')
   \<and> count_compiles (snd (snd (run_static
         (JitCache_init ex_fn [''x'', ''A'', ''B''] [''A'', ''B''] (Some 0) False)
         (\<lambda>r. CacheLock_init ''global'') ex_driver [] (ex_kwargs (PyInt 12) (PyInt 3))))) = 1
   \<and> kernel_cache (fst (snd (run_static
         (JitCache_init ex_fn [''x'', ''A'', ''B''] [''A'', ''B''] (Some 0) False)
         (\<lambda>r. CacheLock_init ''global'') ex_driver [] (ex_kwargs (PyInt 12) (PyInt 3))))) =
       [(''123'', ex_prepared)]"
proof -
  let ?kw = "ex_kwargs (PyInt 12) (PyInt 3)"
  let ?locks = "\<lambda>r::nat. CacheLock_init ''global''"
  have 1: "CallLock \<notin> set []" by simp
  have 2: "cache_lock ex_static = Some 0" by (simp add: ex_static_simps)
  have 3: "?locks 0 = lock_calls [] (CacheLock_init ''global'')" by simp
  have 4: "no_pre_hook ?kw" by (rule ex_no_pre_hook)
  have 5: "check_key_types (check_keys ex_static) ?kw = Inr ()"
    by (rule ex_types_ok) (simp add: ex_static_simps)
  have 6: "get_prepared_kernel ex_static ex_driver [] ?kw =
     (Inr ex_prepared,
      [Compile [] (?kw(''warmup'' \<mapsto> Val (PyBool True))),
       LoadBinary ''kernel'' 0, DebugCompilationTook])"
    by (rule ex_prepare) (simp_all add: ex_static_simps str_int_12 str_int_3)
  have 7: "dict_set (get_key ex_prepared) ex_prepared (kernel_cache ex_static) =
      [(''123'', ex_prepared)]"
    by (simp add: ex_static_simps get_key_def ex_prepared_def)
  from fresh_lock_is_unlocked [where cs = "[]" and self = ex_static and r = 0 and locks = ?locks
      and i = "''global''" and kw = ?kw and drv = ex_driver, OF 1 2 3 4 5] 6 7
  show ?thesis
    unfolding ex_static_def [symmetric] by auto
qed

end
